theory Spec2Isabelle
  imports Main "HOL-Library.Word"
begin

unbundle bit_operations_syntax

section \<open>Bytes and characters\<close>

text \<open>
  A C \<open>char\<close> is an 8-bit word.  The plugin is built with g++ for the database
  server's platforms, where plain \<open>char\<close> is signed: a \<open>char\<close> is promoted to
  \<open>int\<close> by \<open>sint\<close>.  Text and binary values are byte sequences together with
  their byte count, that is, lists of bytes.
\<close>

type_synonym byte = "8 word"

definition ch :: "char \<Rightarrow> byte" where
  "ch c = of_char c"

section \<open>UUID processing functions\<close>

subsection \<open>\<open>hexchar_to_int\<close>\<close>

text \<open>
  \<^verbatim>\<open>
  inline int hexchar_to_int(char c)
  {
      if (c >= '0' && c <= '9') return c - '0';
      c |= 32; // convert to lowercase
      if (c >= 'a' && c <= 'f') return c - 'a' + 10;
      return -1;
  }
  \<close>
\<close>

definition hexchar_to_int :: "byte \<Rightarrow> int" where
  "hexchar_to_int c =
     (if sint c \<ge> sint (ch CHR ''0'') \<and> sint c \<le> sint (ch CHR ''9'')
      then sint c - sint (ch CHR ''0'')
      else let c = c OR 32 in
        if sint c \<ge> sint (ch CHR ''a'') \<and> sint c \<le> sint (ch CHR ''f'')
        then sint c - sint (ch CHR ''a'') + 10
        else - 1)"

subsection \<open>\<open>uuid_unhexlify\<close>\<close>

text \<open>
  The two loops of \<open>uuid_unhexlify\<close>.  \<open>str\<close> is the memory the argument
  pointer refers to, \<open>ptr\<close> the read position in it, \<open>i\<close> the loop counter and
  \<open>uuid\<close> the 16-byte output buffer, written by index.  A loop returns
  \<open>(False, uuid)\<close> at the source's \<open>return false\<close> (the buffer as written so
  far) and \<open>(True, uuid)\<close> when it runs to the end.
\<close>

function unhexlify_plain_loop :: "byte list \<Rightarrow> nat \<Rightarrow> nat \<Rightarrow> byte list \<Rightarrow> bool \<times> byte list" where
  "unhexlify_plain_loop str ptr i uuid =
     (if i < 16 then
        let upper = hexchar_to_int (str ! ptr);
            lower = hexchar_to_int (str ! (ptr + 1))
        in if upper < 0 \<or> lower < 0 then (False, uuid)
           else unhexlify_plain_loop str (ptr + 2) (i + 1)
                  (uuid[i := word_of_int (push_bit 4 upper OR lower)])
      else (True, uuid))"
  by pat_completeness auto
termination
  by (relation "measure (\<lambda>(str, ptr, i, uuid). 16 - i)") auto

function unhexlify_dashed_loop :: "byte list \<Rightarrow> nat \<Rightarrow> nat \<Rightarrow> byte list \<Rightarrow> bool \<times> byte list" where
  "unhexlify_dashed_loop str ptr i uuid =
     (if i < 16 then
        let upper = hexchar_to_int (str ! ptr);
            lower = hexchar_to_int (str ! (ptr + 1))
        in if upper < 0 \<or> lower < 0 then (False, uuid)
           else let uuid = uuid[i := word_of_int (push_bit 4 upper OR lower)];
                    ptr = ptr + 2
                in if i = 3 \<or> i = 5 \<or> i = 7 \<or> i = 9
                   then (if str ! ptr \<noteq> ch CHR ''-'' then (False, uuid)
                         else unhexlify_dashed_loop str (ptr + 1) (i + 1) uuid)
                   else unhexlify_dashed_loop str ptr (i + 1) uuid
      else (True, uuid))"
  by pat_completeness auto
termination
  by (relation "measure (\<lambda>(str, ptr, i, uuid). 16 - i)") auto

declare unhexlify_plain_loop.simps [simp del]
declare unhexlify_dashed_loop.simps [simp del]

text \<open>
  \<open>uuid_unhexlify str len uuid\<close>: \<open>len\<close> is the source's \<open>int length\<close>
  parameter.  The brace case advances \<open>str\<close> by one and reduces \<open>length\<close>
  by two; the advanced pointer is the start offset of the dashed loop.
\<close>

definition uuid_unhexlify :: "byte list \<Rightarrow> int \<Rightarrow> byte list \<Rightarrow> bool \<times> byte list" where
  "uuid_unhexlify str len uuid =
     (if len = 32 then unhexlify_plain_loop str 0 0 uuid
      else
        let (off, len) =
              (if len = 38 \<and> str ! 0 = ch CHR ''{'' \<and> str ! 37 = ch CHR ''}''
               then (1, len - 2) else (0, len))
        in if len = 36 then unhexlify_dashed_loop str off 0 uuid
           else (False, uuid))"

subsection \<open>\<open>uuid_hexlify\<close>\<close>

text \<open>\<open>static char hexdigits[] = "0123456789abcdef"\<close>, with its terminating NUL.\<close>

definition hexdigits :: "byte list" where
  "hexdigits = map ch ''0123456789abcdef'' @ [0]"

function hexlify_loop :: "byte list \<Rightarrow> nat \<Rightarrow> nat \<Rightarrow> byte list \<Rightarrow> byte list" where
  "hexlify_loop uuid i j out =
     (if i < 16 then
        let out = out[j := hexdigits ! nat (drop_bit 4 (sint (uuid ! i)) AND 15)];
            j = j + 1;
            out = out[j := hexdigits ! nat (sint (uuid ! i) AND 15)];
            j = j + 1
        in if i = 3 \<or> i = 5 \<or> i = 7 \<or> i = 9
           then hexlify_loop uuid (i + 1) (j + 1) (out[j := ch CHR ''-''])
           else hexlify_loop uuid (i + 1) j out
      else out)"
  by pat_completeness auto
termination
  by (relation "measure (\<lambda>(uuid, i, j, out). 16 - i)") auto

declare hexlify_loop.simps [simp del]

definition uuid_hexlify :: "byte list \<Rightarrow> byte list \<Rightarrow> byte list" where
  "uuid_hexlify uuid out = hexlify_loop uuid 0 0 out"

subsection \<open>\<open>swap_ts\<close> and \<open>unswap_ts\<close>\<close>

text \<open>
  \<open>memcpy dst d src s n\<close> is \<open>memcpy(dst + d, src + s, n)\<close> on ranges that lie
  inside the two buffers and do not overlap: the result is the new \<open>dst\<close>.
\<close>

definition memcpy :: "byte list \<Rightarrow> nat \<Rightarrow> byte list \<Rightarrow> nat \<Rightarrow> nat \<Rightarrow> byte list" where
  "memcpy dst d src s n = take d dst @ take n (drop s src) @ drop (d + n) dst"

text \<open>The local \<open>char buf[4]\<close> is not initialised; every byte of it is written before it is read.\<close>

definition swap_ts :: "byte list \<Rightarrow> byte list" where
  "swap_ts uuid =
     (let buf = memcpy (replicate 4 0) 0 uuid 0 4;
          uuid = memcpy uuid 0 uuid 6 2;
          uuid = memcpy uuid 2 uuid 4 2;
          uuid = memcpy uuid 4 buf 0 4
      in uuid)"

definition unswap_ts :: "byte list \<Rightarrow> byte list" where
  "unswap_ts uuid =
     (let buf = memcpy (replicate 4 0) 0 uuid 4 4;
          uuid = memcpy uuid 4 uuid 2 2;
          uuid = memcpy uuid 6 uuid 0 2;
          uuid = memcpy uuid 0 buf 0 4
      in uuid)"

section \<open>The host interface\<close>

text \<open>
  The database server's UDF interface, as far as the three functions use it.
  \<open>Item_result\<close> is the server's enumeration of argument types.  Of the
  server's \<open>UDF_ARGS\<close> structure the code reads \<open>arg_count\<close>,
  \<open>arg_type\<close>, \<open>args\<close> and \<open>lengths\<close>: \<open>args[i]\<close> is a pointer
  to the bytes of argument \<open>i\<close>, or \<open>NULL\<close> for an SQL \<open>NULL\<close>
  (\<open>None\<close> here), and \<open>lengths[i]\<close> is the byte count of that argument,
  an \<open>unsigned long\<close>.  An argument is therefore the list of its bytes, and
  \<open>lengths\<close> gives the lengths of these lists.
\<close>

datatype Item_result = STRING_RESULT | REAL_RESULT | INT_RESULT | ROW_RESULT | DECIMAL_RESULT

record UDF_ARGS =
  arg_count :: nat
  arg_type :: "Item_result list"
  args :: "byte list option list"

definition lengths :: "UDF_ARGS \<Rightarrow> nat list" where
  "lengths a = map (\<lambda>p. case p of None \<Rightarrow> 0 | Some s \<Rightarrow> length s) (args a)"

record UDF_INIT =
  maybe_null :: bool
  max_length :: nat
  const_item :: bool

text \<open>
  The out-parameters of a string-valued function: the \<open>result\<close> buffer the
  server passes, \<open>*length\<close>, \<open>*is_null\<close> and \<open>*is_error\<close>.  A function
  returns either \<open>NULL\<close> or the pointer \<open>result\<close>.
\<close>

record udf_out =
  result :: "byte list"
  out_length :: nat
  is_null :: byte
  is_error :: byte

datatype char_ptr = Null_ptr | Result_ptr

text \<open>
  Reading through a \<open>NULL\<close> pointer has no defined result; the model makes
  it the outcome \<open>Inl Null_pointer_read\<close>.
\<close>

datatype fault = Null_pointer_read

text \<open>
  \<open>uuid_unhexlify\<close> takes \<open>int length\<close> and is called with the
  \<open>unsigned long\<close> \<open>args->lengths[0]\<close>: the conversion keeps the low 32
  bits, read as two's complement.
\<close>

definition int_of_ulong :: "nat \<Rightarrow> int" where
  "int_of_ulong n = sint (word_of_nat n :: 32 word)"

text \<open>
  \<open>*reinterpret_cast<long long*>(p)\<close>: the eight bytes at \<open>p\<close> as one
  64-bit integer, least significant byte first.
\<close>

definition long_long_at :: "byte list \<Rightarrow> 64 word" where
  "long_long_at bs = word_rcat (rev (take 8 bs))"

text \<open>
  \<open>bool swap_flag = args->arg_count == 2 ? *reinterpret_cast<long long*>(args->args[1]) : false;\<close>
  (the same line in \<open>uuid_to_bin\<close> and \<open>bin_to_uuid\<close>).
\<close>

definition swap_flag :: "UDF_ARGS \<Rightarrow> fault + bool" where
  "swap_flag a =
     (if arg_count a = 2
      then (case args a ! 1 of
              None \<Rightarrow> Inl Null_pointer_read
            | Some p \<Rightarrow> Inr (long_long_at p \<noteq> 0))
      else Inr False)"

subsection \<open>\<open>IS_UUID(string)\<close>\<close>

text \<open>
  \<open>is_uuid a n\<close>, with \<open>n\<close> the value of \<open>*is_null\<close> at the call, returns
  the function's value and the new \<open>*is_null\<close>.
  The local \<open>char data[16]\<close> is not initialised; the model starts it with
  zeros; by lemma \<open>uuid_unhexlify_spec\<close> below neither the value of
  \<open>uuid_unhexlify\<close> nor the bytes it delivers on success depend on them.
\<close>

definition is_uuid :: "UDF_ARGS \<Rightarrow> byte \<Rightarrow> int \<times> byte" where
  "is_uuid a n =
     (case args a ! 0 of
        None \<Rightarrow> (0, 1)
      | Some str \<Rightarrow>
          if arg_type a ! 0 \<noteq> STRING_RESULT then (0, n)
          else
            let (ok, data) = uuid_unhexlify str (int_of_ulong (lengths a ! 0)) (replicate 16 0)
            in (if ok then 1 else 0, n))"

subsection \<open>\<open>UUID_TO_BIN(string)\<close>, \<open>UUID_TO_BIN(string, swap_flag)\<close>\<close>

text \<open>
  \<open>uuid_to_bin_init initid args message\<close> returns the function's value
  (1 rejects the call), the new \<open>*initid\<close> and the new \<open>message\<close>.
\<close>

definition uuid_to_bin_init :: "UDF_INIT \<Rightarrow> UDF_ARGS \<Rightarrow> string \<Rightarrow> byte \<times> UDF_INIT \<times> string" where
  "uuid_to_bin_init initid a message =
     (if arg_count a < 1 \<or> arg_count a > 2
      then (1, initid, ''UUID_TO_BIN requires either one or two arguments'')
      else if arg_type a ! 0 \<noteq> STRING_RESULT
      then (1, initid, ''UUID_TO_BIN requires first argument as string'')
      else if arg_count a = 2 \<and> arg_type a ! 1 \<noteq> INT_RESULT
      then (1, initid, ''UUID_TO_BIN requires second argument as integer'')
      else (0, initid\<lparr>const_item := True, maybe_null := True, max_length := 16\<rparr>, message))"

definition uuid_to_bin :: "UDF_ARGS \<Rightarrow> udf_out \<Rightarrow> fault + (char_ptr \<times> udf_out)" where
  "uuid_to_bin a out =
     (case args a ! 0 of
        None \<Rightarrow> Inr (Null_ptr, out\<lparr>is_null := 1\<rparr>)
      | Some str \<Rightarrow>
          (case swap_flag a of
             Inl e \<Rightarrow> Inl e
           | Inr swap \<Rightarrow>
               let (ok, data) = uuid_unhexlify str (int_of_ulong (lengths a ! 0)) (replicate 16 0)
               in if \<not> ok then Inr (Null_ptr, out\<lparr>is_error := 1\<rparr>)
                  else
                    let data = (if swap then swap_ts data else data)
                    in Inr (Result_ptr,
                            out\<lparr>result := memcpy (result out) 0 data 0 16, out_length := 16\<rparr>)))"

subsection \<open>\<open>BIN_TO_UUID(string)\<close>, \<open>BIN_TO_UUID(string, swap_flag)\<close>\<close>

definition bin_to_uuid :: "UDF_ARGS \<Rightarrow> udf_out \<Rightarrow> fault + (char_ptr \<times> udf_out)" where
  "bin_to_uuid a out =
     (case args a ! 0 of
        None \<Rightarrow> Inr (Null_ptr, out\<lparr>is_null := 1\<rparr>)
      | Some bin \<Rightarrow>
          if lengths a ! 0 \<noteq> 16 then Inr (Null_ptr, out\<lparr>is_error := 1\<rparr>)
          else
            (case swap_flag a of
               Inl e \<Rightarrow> Inl e
             | Inr swap \<Rightarrow>
                 let data = memcpy (replicate 16 0) 0 bin 0 16;
                     data = (if swap then unswap_ts data else data)
                 in Inr (Result_ptr,
                         out\<lparr>result := uuid_hexlify data (result out), out_length := 36\<rparr>)))"

text \<open>What the server reads from a call: \<open>*length\<close> bytes at the returned pointer.\<close>

definition returned :: "fault + (char_ptr \<times> udf_out) \<Rightarrow> byte list option" where
  "returned r =
     (case r of
        Inr (Result_ptr, out) \<Rightarrow> Some (take (out_length out) (result out))
      | _ \<Rightarrow> None)"

section \<open>The specification's notions\<close>

text \<open>
  The definitions of this section do not come from the code.  They say, in the
  specification's words, what a hexadecimal digit, a valid UUID text, its
  canonical form and its bytes are; the theorems compare the code with them.
  Bytes are compared as unsigned values (\<open>\<le>\<close> on words).
\<close>

definition is_hex_digit :: "byte \<Rightarrow> bool" where
  "is_hex_digit c \<longleftrightarrow>
     (ch CHR ''0'' \<le> c \<and> c \<le> ch CHR ''9'') \<or>
     (ch CHR ''a'' \<le> c \<and> c \<le> ch CHR ''f'') \<or>
     (ch CHR ''A'' \<le> c \<and> c \<le> ch CHR ''F'')"

text \<open>The value 0 to 15 of a hexadecimal digit.\<close>

definition hex_digit_value :: "byte \<Rightarrow> nat" where
  "hex_digit_value c =
     (if ch CHR ''0'' \<le> c \<and> c \<le> ch CHR ''9'' then unat c - unat (ch CHR ''0'')
      else if ch CHR ''a'' \<le> c \<and> c \<le> ch CHR ''f'' then unat c - unat (ch CHR ''a'') + 10
      else unat c - unat (ch CHR ''A'') + 10)"

definition to_lower :: "byte \<Rightarrow> byte" where
  "to_lower c = (if ch CHR ''A'' \<le> c \<and> c \<le> ch CHR ''Z'' then c + 32 else c)"

text \<open>The lowercase hexadecimal digit of a value below 16.\<close>

definition lower_hex_char :: "nat \<Rightarrow> byte" where
  "lower_hex_char n = (if n < 10 then ch CHR ''0'' + of_nat n else ch CHR ''a'' + of_nat (n - 10))"

text \<open>A byte as two lowercase digits, and two digits as a byte.\<close>

definition hex_of_byte :: "byte \<Rightarrow> byte list" where
  "hex_of_byte b = [lower_hex_char (unat b div 16), lower_hex_char (unat b mod 16)]"

definition byte_of_hex :: "byte \<Rightarrow> byte \<Rightarrow> byte" where
  "byte_of_hex u l = of_nat (16 * hex_digit_value u + hex_digit_value l)"

fun hex_pairs :: "byte list \<Rightarrow> byte list" where
  "hex_pairs (u # l # cs) = byte_of_hex u l # hex_pairs cs"
| "hex_pairs _ = []"

definition dash :: byte where
  "dash = ch CHR ''-''"

text \<open>Thirty-two digits grouped 8-4-4-4-12 with dashes.\<close>

definition dashed :: "byte list \<Rightarrow> byte list" where
  "dashed h =
     take 8 h @ [dash] @ take 4 (drop 8 h) @ [dash] @ take 4 (drop 12 h) @ [dash] @
     take 4 (drop 16 h) @ [dash] @ drop 20 h"

text \<open>
  The three accepted forms: 32 hexadecimal characters; 36 characters, 8 hex,
  dash, 4 hex, dash, 4 hex, dash, 4 hex, dash, 12 hex (dashes at positions 8, 13,
  18 and 23); the second form between \<open>{\<close> and \<open>}\<close>.
\<close>

definition uuid_form_plain :: "byte list \<Rightarrow> bool" where
  "uuid_form_plain t \<longleftrightarrow> length t = 32 \<and> list_all is_hex_digit t"

definition uuid_form_dashed :: "byte list \<Rightarrow> bool" where
  "uuid_form_dashed t \<longleftrightarrow>
     length t = 36 \<and>
     list_all is_hex_digit (take 8 t) \<and> t ! 8 = dash \<and>
     list_all is_hex_digit (take 4 (drop 9 t)) \<and> t ! 13 = dash \<and>
     list_all is_hex_digit (take 4 (drop 14 t)) \<and> t ! 18 = dash \<and>
     list_all is_hex_digit (take 4 (drop 19 t)) \<and> t ! 23 = dash \<and>
     list_all is_hex_digit (drop 24 t)"

definition uuid_form_braced :: "byte list \<Rightarrow> bool" where
  "uuid_form_braced t \<longleftrightarrow>
     length t = 38 \<and> t ! 0 = ch CHR ''{'' \<and> t ! 37 = ch CHR ''}'' \<and>
     uuid_form_dashed (take 36 (drop 1 t))"

definition valid_uuid_text :: "byte list \<Rightarrow> bool" where
  "valid_uuid_text t \<longleftrightarrow> uuid_form_plain t \<or> uuid_form_dashed t \<or> uuid_form_braced t"

text \<open>
  The sixteen bytes of a valid text, in the order of its digits; the text of
  sixteen bytes (lowercase, dashed); the canonical lowercase, dashed, unbraced
  normalisation of a valid text.
\<close>

definition uuid_bytes :: "byte list \<Rightarrow> byte list" where
  "uuid_bytes t = hex_pairs (filter is_hex_digit t)"

definition uuid_text :: "byte list \<Rightarrow> byte list" where
  "uuid_text b = dashed (concat (map hex_of_byte b))"

definition canonical :: "byte list \<Rightarrow> byte list" where
  "canonical t = dashed (map to_lower (filter is_hex_digit t))"

section \<open>Bytes and hexadecimal digits\<close>

text \<open>
  The signed value of a byte in terms of its unsigned value, and \<open>c |= 32\<close>
  on the unsigned value.
\<close>

lemma uint_byte_range: "0 \<le> uint (c::byte) \<and> uint c < 256"
  using uint_lt2p [of c] by simp

lemma sint_byte: "sint (c::byte) = (if uint c < 128 then uint c else uint c - 256)"
proof -
  have s: "sint c = (uint c + 128) mod 256 - 128"
    by (simp add: sint_uint signed_take_bit_eq_take_bit_shift take_bit_eq_mod)
  show ?thesis
  proof (cases "uint c < 128")
    case True
    then show ?thesis using uint_byte_range [of c] by (simp add: s)
  next
    case False
    have "(uint c + 128) mod 256 = (uint c - 128 + 256) mod 256" by (simp add: add.commute)
    also have "\<dots> = (uint c - 128) mod 256" by (rule mod_add_self2)
    also have "\<dots> = uint c - 128" using False uint_byte_range [of c] by simp
    finally show ?thesis using False by (simp add: s)
  qed
qed

lemma and32_int: "(k::int) AND 32 = (if odd (k div 32) then 32 else 0)"
proof -
  have b32: "bit (32::int) n \<longleftrightarrow> n = 5" for n
    using bit_exp_iff [of 5 n, where 'a = int] by simp
  have "k AND 32 = (if bit k 5 then 32 else 0)"
    by (rule bit_eqI) (auto simp: bit_and_iff b32)
  then show ?thesis by (simp add: bit_iff_odd)
qed

lemma or32_int: "(k::int) OR 32 = (if odd (k div 32) then k else k + 32)"
  using plus_and_or [of k 32] by (simp add: and32_int split: if_splits)

lemma int_divmod_eq:
  assumes "k = d * q + r" "0 \<le> r" "r < d"
  shows "(k::int) div d = q" and "k mod d = r"
proof -
  have "0 < d" using assms by linarith
  have "k div d = (r + q * d) div d" by (simp add: assms(1) mult.commute add.commute)
  also have "\<dots> = q + r div d" using \<open>0 < d\<close> by simp
  also have "r div d = 0" using assms by simp
  finally show "k div d = q" by simp
  have "k mod d = (r + q * d) mod d" by (simp add: assms(1) mult.commute add.commute)
  also have "\<dots> = r mod d" by simp
  also have "\<dots> = r" using assms by simp
  finally show "k mod d = r" .
qed

lemma or32_ranges:
  assumes "64 \<le> k" "k < 128"
  shows "(k::int) OR 32 = (if k < 96 then k + 32 else k)"
proof (cases "k < 96")
  case True
  with assms have "k div 32 = 2" by (intro int_divmod_eq(1) [where r = "k - 64"]) simp_all
  then show ?thesis using True by (simp add: or32_int)
next
  case False
  with assms have "k div 32 = 3" by (intro int_divmod_eq(1) [where r = "k - 96"]) simp_all
  then show ?thesis using False by (simp add: or32_int)
qed

lemma or32_ge: "k \<le> (k::int) OR 32" "(k::int) OR 32 \<le> k + 32"
  by (simp_all add: or32_int)

text \<open>
  \<open>hexchar_to_int\<close> in closed form.  The comparisons of the source are made
  on the promoted, signed value of the character; the closed form is on the
  unsigned value, which is how the specification's notions read a byte.
\<close>

lemma hexchar_to_int_eq:
  "hexchar_to_int c =
     (let n = uint c in
      if 48 \<le> n \<and> n \<le> 57 then n - 48
      else if 97 \<le> n \<and> n \<le> 102 then n - 87
      else if 65 \<le> n \<and> n \<le> 70 then n - 55
      else - 1)"
proof -
  define n where "n = uint c"
  have r: "0 \<le> n" "n < 256" using uint_byte_range [of c] by (simp_all add: n_def)
  have o: "uint (c OR 32) = n OR 32" by (simp add: uint_or n_def)
  have o2: "n OR 32 < 256" using uint_byte_range [of "c OR 32"] o by simp
  consider "n < 64" | "64 \<le> n" "n < 128" | "128 \<le> n" by linarith
  then show ?thesis
  proof cases
    case 1
    then have "n OR 32 < 97" using or32_ge(2) [of n] by linarith
    then show ?thesis using 1 r o o2
      by (simp add: hexchar_to_int_def ch_def sint_byte Let_def flip: n_def)
  next
    case 2
    then show ?thesis using r o o2 or32_ranges [of n]
      by (auto simp add: hexchar_to_int_def ch_def sint_byte Let_def simp flip: n_def)
  next
    case 3
    then have "128 \<le> n OR 32" using or32_ge(1) [of n] by linarith
    then show ?thesis using 3 r o o2
      by (simp add: hexchar_to_int_def ch_def sint_byte Let_def flip: n_def)
  qed
qed

lemma is_hex_digit_uint:
  "is_hex_digit c \<longleftrightarrow>
     (48 \<le> uint c \<and> uint c \<le> 57) \<or> (97 \<le> uint c \<and> uint c \<le> 102) \<or> (65 \<le> uint c \<and> uint c \<le> 70)"
  by (simp add: is_hex_digit_def ch_def word_le_def)

lemma hexchar_neg_iff: "hexchar_to_int c < 0 \<longleftrightarrow> \<not> is_hex_digit c"
  unfolding hexchar_to_int_eq is_hex_digit_uint Let_def
  by (simp split: if_splits)

lemma hexchar_value:
  assumes "is_hex_digit c"
  shows "hexchar_to_int c = int (hex_digit_value c)" and "hex_digit_value c < 16"
proof -
  define n where "n = unat c"
  have u: "uint c = int n" by (simp add: n_def)
  have h: "(48 \<le> n \<and> n \<le> 57) \<or> (97 \<le> n \<and> n \<le> 102) \<or> (65 \<le> n \<and> n \<le> 70)"
    using assms unfolding is_hex_digit_uint u by simp
  have v: "hex_digit_value c =
      (if 48 \<le> n \<and> n \<le> 57 then n - 48 else if 97 \<le> n \<and> n \<le> 102 then n - 97 + 10 else n - 65 + 10)"
    unfolding hex_digit_value_def ch_def word_le_def u n_def [symmetric] by simp
  have e: "hexchar_to_int c =
      (if 48 \<le> n \<and> n \<le> 57 then int n - 48 else if 97 \<le> n \<and> n \<le> 102 then int n - 87
       else if 65 \<le> n \<and> n \<le> 70 then int n - 55 else - 1)"
    unfolding hexchar_to_int_eq Let_def u by simp
  show "hexchar_to_int c = int (hex_digit_value c)"
    unfolding v e using h by (auto simp: of_nat_diff)
  show "hex_digit_value c < 16"
    unfolding v using h by auto
qed

text \<open>
  The two indices into \<open>hexdigits\<close>, \<open>(uuid[i] >> 4) & 0x0f\<close> and
  \<open>uuid[i] & 0x0f\<close>, are taken from the promoted, signed value of the byte,
  where \<open>>>\<close> is an arithmetic shift; they are the high and the low four
  bits of the byte all the same.
\<close>

lemma upt16: "[0..<16] = [0,1,2,3,4,5,6,7,8,9,10,11,12,13,14,15]"
  by (simp add: upt_rec)

lemma hexdigits_nth:
  assumes "n < 16"
  shows "hexdigits ! n = lower_hex_char n"
proof -
  have "n \<in> set [0..<16]" using assms by simp
  then show ?thesis
    unfolding upt16 by (auto simp add: hexdigits_def lower_hex_char_def ch_def)
qed

lemma and15_int: "(k::int) AND 15 = k mod 16"
proof -
  have "(15::int) = mask 4" by (simp add: mask_eq_exp_minus_1)
  then have "k AND 15 = take_bit 4 k" by (simp add: take_bit_eq_mask)
  then show ?thesis by (simp add: take_bit_eq_mod)
qed

lemma byte_nibbles:
  fixes b :: byte
  shows "drop_bit 4 (sint b) AND 15 = int (unat b div 16)"
    and "sint b AND 15 = int (unat b mod 16)"
proof -
  define n where "n = uint b"
  define q r where "q = n div 16" and "r = n mod 16"
  have n: "0 \<le> n" "n < 256" using uint_byte_range [of b] by (simp_all add: n_def)
  have qr: "n = 16 * q + r" "0 \<le> r" "r < 16" by (simp_all add: q_def r_def)
  with n have q: "0 \<le> q" "q < 16" by linarith+
  have un: "int (unat b div 16) = q" "int (unat b mod 16) = r"
    unfolding q_def r_def n_def by (simp_all add: zdiv_int zmod_int)
  show "drop_bit 4 (sint b) AND 15 = int (unat b div 16)"
  proof (cases "n < 128")
    case True
    then have "sint b = n" by (simp add: sint_byte n_def)
    then have "drop_bit 4 (sint b) AND 15 = q mod 16"
      by (simp add: drop_bit_eq_div and15_int q_def)
    then show ?thesis using q un by simp
  next
    case False
    then have s: "sint b = n - 256" by (simp add: sint_byte n_def)
    have "(n - 256) div 16 = q - 16"
      by (rule int_divmod_eq(1) [where r = r]) (use qr in simp_all)
    then have "drop_bit 4 (sint b) AND 15 = (q - 16) mod 16"
      by (simp add: s drop_bit_eq_div and15_int)
    also have "\<dots> = q"
      by (rule int_divmod_eq(2) [where q = "- 1"]) (use q in simp_all)
    finally show ?thesis using un by simp
  qed
  show "sint b AND 15 = int (unat b mod 16)"
  proof (cases "n < 128")
    case True
    then have "sint b = n" by (simp add: sint_byte n_def)
    then show ?thesis using un by (simp add: and15_int r_def)
  next
    case False
    then have s: "sint b = n - 256" by (simp add: sint_byte n_def)
    have "(n - 256) mod 16 = r"
      by (rule int_divmod_eq(2) [where q = "q - 16"]) (use qr in simp_all)
    then show ?thesis using un by (simp add: s and15_int)
  qed
qed

text \<open>
  \<open>upper << 4 | lower\<close> on two digit values is the byte of the two digits,
  and the digits of a byte give the byte back.
\<close>

lemma hex_pair_int:
  assumes "0 \<le> l" "l < 16"
  shows "push_bit 4 u OR l = 16 * u + (l::int)"
proof -
  have l: "take_bit 4 l = l" using assms by (simp add: take_bit_int_eq_self)
  have "push_bit 4 u + take_bit 4 l = push_bit 4 u OR take_bit 4 l"
    by (rule disjunctive_add) (auto simp: bit_simps)
  then show ?thesis by (simp add: l push_bit_eq_mult)
qed

lemma hex_pair_byte:
  assumes "is_hex_digit u" "is_hex_digit l"
  shows "word_of_int (push_bit 4 (hexchar_to_int u) OR hexchar_to_int l) = byte_of_hex u l"
proof -
  have "push_bit 4 (hexchar_to_int u) OR hexchar_to_int l
          = int (16 * hex_digit_value u + hex_digit_value l)"
    using hexchar_value [OF assms(1)] hexchar_value [OF assms(2)]
    by (simp add: hex_pair_int)
  then show ?thesis by (simp add: byte_of_hex_def)
qed

lemma unat_nibbles:
  assumes "a < 16" "b < 16"
  shows "unat (of_nat (16 * a + b) :: byte) div 16 = a"
    and "unat (of_nat (16 * a + b) :: byte) mod 16 = b"
proof -
  define m where "m = 16 * a + b"
  have "m < 256" using assms by (simp add: m_def)
  then have u: "unat (of_nat m :: byte) = m"
    by (simp add: unat_of_nat)
  have "m div 16 = a" "m mod 16 = b" using assms by (simp_all add: m_def)
  then show "unat (of_nat (16 * a + b) :: byte) div 16 = a"
    and "unat (of_nat (16 * a + b) :: byte) mod 16 = b"
    unfolding m_def [symmetric] u by simp_all
qed

lemma lower_hex_char_value:
  assumes "is_hex_digit c"
  shows "lower_hex_char (hex_digit_value c) = to_lower c"
proof -
  define n where "n = unat c"
  have u: "uint c = int n" by (simp add: n_def)
  have c: "of_nat n = c" by (simp add: n_def)
  have h: "(48 \<le> n \<and> n \<le> 57) \<or> (97 \<le> n \<and> n \<le> 102) \<or> (65 \<le> n \<and> n \<le> 70)"
    using assms unfolding is_hex_digit_uint u by simp
  have v: "hex_digit_value c =
      (if 48 \<le> n \<and> n \<le> 57 then n - 48 else if 97 \<le> n \<and> n \<le> 102 then n - 97 + 10 else n - 65 + 10)"
    unfolding hex_digit_value_def ch_def word_le_def u n_def [symmetric] by simp
  have t: "to_lower c = (if 65 \<le> n \<and> n \<le> 90 then c + 32 else c)"
    unfolding to_lower_def ch_def word_le_def u by simp
  have d: "k \<le> n \<Longrightarrow> (of_nat (n - k) :: byte) = c - of_nat k" for k
    by (simp add: c)
  from h show ?thesis
  proof (elim disjE conjE)
    assume "48 \<le> n" "n \<le> 57"
    then show ?thesis unfolding v t lower_hex_char_def by (auto simp add: d c ch_def)
  next
    assume "97 \<le> n" "n \<le> 102"
    then show ?thesis unfolding v t lower_hex_char_def by (auto simp add: d c ch_def)
  next
    assume "65 \<le> n" "n \<le> 70"
    then show ?thesis unfolding v t lower_hex_char_def by (auto simp add: d c ch_def)
  qed
qed

lemma lower_hex_char_all:
  "list_all (\<lambda>n. is_hex_digit (lower_hex_char n) \<and> hex_digit_value (lower_hex_char n) = n
      \<and> to_lower (lower_hex_char n) = lower_hex_char n) [0..<16]"
  unfolding upt16
  by (simp add: is_hex_digit_def hex_digit_value_def to_lower_def lower_hex_char_def ch_def)

lemma lower_hex_char_props:
  assumes "n < 16"
  shows "is_hex_digit (lower_hex_char n)"
    and "hex_digit_value (lower_hex_char n) = n"
    and "to_lower (lower_hex_char n) = lower_hex_char n"
  using lower_hex_char_all assms by (simp_all add: list_all_iff)

lemma byte_of_hex_of_byte:
  "byte_of_hex (lower_hex_char (unat b div 16)) (lower_hex_char (unat b mod 16)) = b"
proof -
  have "unat b < 256" using unsigned_less [of b, where 'a = nat] by simp
  then have "unat b div 16 < 16" "unat b mod 16 < 16" by simp_all
  then show ?thesis by (simp add: byte_of_hex_def lower_hex_char_props)
qed

lemma hex_of_byte_of_hex:
  assumes "is_hex_digit u" "is_hex_digit l"
  shows "hex_of_byte (byte_of_hex u l) = [to_lower u, to_lower l]"
proof -
  have a: "hex_digit_value u < 16" and b: "hex_digit_value l < 16"
    using assms by (simp_all add: hexchar_value(2))
  show ?thesis
    unfolding hex_of_byte_def byte_of_hex_def unat_nibbles [OF a b]
    by (simp add: lower_hex_char_value assms)
qed

lemma hexlify_digits:
  "hexdigits ! nat (drop_bit 4 (sint (b::byte)) AND 15) = lower_hex_char (unat b div 16)"
  "hexdigits ! nat (sint (b::byte) AND 15) = lower_hex_char (unat b mod 16)"
proof -
  have "unat b < 256" using unsigned_less [of b, where 'a = nat] by simp
  then have "unat b div 16 < 16" "unat b mod 16 < 16" by simp_all
  then show "hexdigits ! nat (drop_bit 4 (sint (b::byte)) AND 15) = lower_hex_char (unat b div 16)"
    "hexdigits ! nat (sint (b::byte) AND 15) = lower_hex_char (unat b mod 16)"
    by (simp_all add: byte_nibbles hexdigits_nth)
qed

lemma hexchar_to_lower:
  assumes "is_hex_digit c"
  shows "hexchar_to_int (to_lower c) = hexchar_to_int c"
proof -
  have v: "hex_digit_value c < 16" using assms by (rule hexchar_value(2))
  have "hexchar_to_int (to_lower c) = hexchar_to_int (lower_hex_char (hex_digit_value c))"
    by (simp add: lower_hex_char_value [OF assms])
  also have "\<dots> = int (hex_digit_value (lower_hex_char (hex_digit_value c)))"
    by (rule hexchar_value(1)) (rule lower_hex_char_props(1) [OF v])
  also have "\<dots> = int (hex_digit_value c)"
    by (simp add: lower_hex_char_props(2) [OF v])
  finally show ?thesis by (simp add: hexchar_value(1) [OF assms])
qed

lemma hexchar_to_int_chars:
  "hexchar_to_int c =
     (if ch CHR ''0'' \<le> c \<and> c \<le> ch CHR ''9'' then uint c - uint (ch CHR ''0'')
      else if ch CHR ''a'' \<le> c \<and> c \<le> ch CHR ''f'' then uint c - uint (ch CHR ''a'') + 10
      else if ch CHR ''A'' \<le> c \<and> c \<le> ch CHR ''F'' then uint c - uint (ch CHR ''A'') + 10
      else - 1)"
  unfolding hexchar_to_int_eq Let_def by (simp add: ch_def word_le_def)

section \<open>Buffers of known length\<close>

text \<open>
  A buffer of known length is the list of its elements; the loops, which run
  a fixed number of times, are then evaluated on explicit lists.
\<close>

lemma take_nth_upt:
  assumes "n \<le> length xs"
  shows "take n xs = map ((!) xs) [0..<n]"
proof -
  have "take n xs = take n (map ((!) xs) [0..<length xs])" by (simp add: map_nth)
  also have "\<dots> = map ((!) xs) (take n [0..<length xs])" by (simp add: take_map)
  also have "\<dots> = map ((!) xs) [0..<n]" using assms by simp
  finally show ?thesis .
qed

lemma upt8: "[0..<8] = [0, 1, 2, 3, 4, 5, 6, 7]"
  by (simp add: upt_rec)

lemma upt32: "[0..<32] = [0, 1, 2, 3, 4, 5, 6, 7, 8, 9, 10, 11, 12, 13, 14, 15, 16, 17, 18, 19, 20, 21, 22, 23, 24, 25, 26, 27, 28, 29, 30, 31]"
  by (simp add: upt_rec)

lemma upt36: "[0..<36] = [0, 1, 2, 3, 4, 5, 6, 7, 8, 9, 10, 11, 12, 13, 14, 15, 16, 17, 18, 19, 20, 21, 22, 23, 24, 25, 26, 27, 28, 29, 30, 31, 32, 33, 34, 35]"
  by (simp add: upt_rec)

lemma upt38: "[0..<38] = [0, 1, 2, 3, 4, 5, 6, 7, 8, 9, 10, 11, 12, 13, 14, 15, 16, 17, 18, 19, 20, 21, 22, 23, 24, 25, 26, 27, 28, 29, 30, 31, 32, 33, 34, 35, 36, 37]"
  by (simp add: upt_rec)

lemma list8:
  assumes "length xs = 8"
  shows "xs = [xs ! 0, xs ! 1, xs ! 2, xs ! 3, xs ! 4, xs ! 5, xs ! 6, xs ! 7]"
  using take_nth_upt [of 8 xs] assms unfolding upt8 by simp

lemma list16:
  assumes "length xs = 16"
  shows "xs = [xs ! 0, xs ! 1, xs ! 2, xs ! 3, xs ! 4, xs ! 5, xs ! 6, xs ! 7, xs ! 8, xs ! 9, xs ! 10, xs ! 11, xs ! 12, xs ! 13, xs ! 14, xs ! 15]"
  using take_nth_upt [of 16 xs] assms unfolding upt16 by simp

lemma list32:
  assumes "length xs = 32"
  shows "xs = [xs ! 0, xs ! 1, xs ! 2, xs ! 3, xs ! 4, xs ! 5, xs ! 6, xs ! 7, xs ! 8, xs ! 9, xs ! 10, xs ! 11, xs ! 12, xs ! 13, xs ! 14, xs ! 15, xs ! 16, xs ! 17, xs ! 18, xs ! 19, xs ! 20, xs ! 21, xs ! 22, xs ! 23, xs ! 24, xs ! 25, xs ! 26, xs ! 27, xs ! 28, xs ! 29, xs ! 30, xs ! 31]"
  using take_nth_upt [of 32 xs] assms unfolding upt32 by simp

lemma list36:
  assumes "length xs = 36"
  shows "xs = [xs ! 0, xs ! 1, xs ! 2, xs ! 3, xs ! 4, xs ! 5, xs ! 6, xs ! 7, xs ! 8, xs ! 9, xs ! 10, xs ! 11, xs ! 12, xs ! 13, xs ! 14, xs ! 15, xs ! 16, xs ! 17, xs ! 18, xs ! 19, xs ! 20, xs ! 21, xs ! 22, xs ! 23, xs ! 24, xs ! 25, xs ! 26, xs ! 27, xs ! 28, xs ! 29, xs ! 30, xs ! 31, xs ! 32, xs ! 33, xs ! 34, xs ! 35]"
  using take_nth_upt [of 36 xs] assms unfolding upt36 by simp

lemma list38:
  assumes "length xs = 38"
  shows "xs = [xs ! 0, xs ! 1, xs ! 2, xs ! 3, xs ! 4, xs ! 5, xs ! 6, xs ! 7, xs ! 8, xs ! 9, xs ! 10, xs ! 11, xs ! 12, xs ! 13, xs ! 14, xs ! 15, xs ! 16, xs ! 17, xs ! 18, xs ! 19, xs ! 20, xs ! 21, xs ! 22, xs ! 23, xs ! 24, xs ! 25, xs ! 26, xs ! 27, xs ! 28, xs ! 29, xs ! 30, xs ! 31, xs ! 32, xs ! 33, xs ! 34, xs ! 35, xs ! 36, xs ! 37]"
  using take_nth_upt [of 38 xs] assms unfolding upt38 by simp

lemma list36_prefix:
  assumes "36 \<le> length xs"
  shows "xs = [xs ! 0, xs ! 1, xs ! 2, xs ! 3, xs ! 4, xs ! 5, xs ! 6, xs ! 7, xs ! 8, xs ! 9, xs ! 10, xs ! 11, xs ! 12, xs ! 13, xs ! 14, xs ! 15, xs ! 16, xs ! 17, xs ! 18, xs ! 19, xs ! 20, xs ! 21, xs ! 22, xs ! 23, xs ! 24, xs ! 25, xs ! 26, xs ! 27, xs ! 28, xs ! 29, xs ! 30, xs ! 31, xs ! 32, xs ! 33, xs ! 34, xs ! 35] @ drop 36 xs"
proof -
  have t: "take 36 xs = [xs ! 0, xs ! 1, xs ! 2, xs ! 3, xs ! 4, xs ! 5, xs ! 6, xs ! 7, xs ! 8, xs ! 9, xs ! 10, xs ! 11, xs ! 12, xs ! 13, xs ! 14, xs ! 15, xs ! 16, xs ! 17, xs ! 18, xs ! 19, xs ! 20, xs ! 21, xs ! 22, xs ! 23, xs ! 24, xs ! 25, xs ! 26, xs ! 27, xs ! 28, xs ! 29, xs ! 30, xs ! 31, xs ! 32, xs ! 33, xs ! 34, xs ! 35]"
    using take_nth_upt [OF assms] unfolding upt36 by simp
  have "take 36 xs @ drop 36 xs = xs" by simp
  then show ?thesis unfolding t by (rule sym)
qed

section \<open>The timestamp swap\<close>

lemma swap_ts_explicit:
  "swap_ts [a0, a1, a2, a3, a4, a5, a6, a7, a8, a9, a10, a11, a12, a13, a14, a15] = [a6, a7, a4, a5, a0, a1, a2, a3, a8, a9, a10, a11, a12, a13, a14, a15]"
  by (simp add: swap_ts_def memcpy_def)

lemma unswap_ts_explicit:
  "unswap_ts [a0, a1, a2, a3, a4, a5, a6, a7, a8, a9, a10, a11, a12, a13, a14, a15] = [a4, a5, a6, a7, a2, a3, a0, a1, a8, a9, a10, a11, a12, a13, a14, a15]"
  by (simp add: unswap_ts_def memcpy_def)

lemma swap_ts_props:
  assumes "length x = 16"
  shows "length (swap_ts x) = 16" and "length (unswap_ts x) = 16"
    and "unswap_ts (swap_ts x) = x" and "swap_ts (unswap_ts x) = x"
proof -
  define c where "c i = x ! i" for i
  have x: "x = [c 0, c 1, c 2, c 3, c 4, c 5, c 6, c 7, c 8, c 9, c 10, c 11, c 12, c 13, c 14, c 15]" unfolding c_def by (rule list16 [OF assms])
  show "length (swap_ts x) = 16" and "length (unswap_ts x) = 16"
    by (subst x, simp add: swap_ts_explicit unswap_ts_explicit)+
  show "unswap_ts (swap_ts x) = x" and "swap_ts (unswap_ts x) = x"
    by (subst x, subst x, simp add: swap_ts_explicit unswap_ts_explicit)+
qed

lemma swap_ts_first8:
  assumes "length x = 16" "length y = 8"
  shows "take 8 (swap_ts (take 8 x @ y)) = take 8 (swap_ts x)"
    and "take 8 (unswap_ts (take 8 x @ y)) = take 8 (unswap_ts x)"
proof -
  define c where "c i = x ! i" for i
  define e where "e i = y ! i" for i
  have x: "x = [c 0, c 1, c 2, c 3, c 4, c 5, c 6, c 7, c 8, c 9, c 10, c 11, c 12, c 13, c 14, c 15]" unfolding c_def by (rule list16 [OF assms(1)])
  have y: "y = [e 0, e 1, e 2, e 3, e 4, e 5, e 6, e 7]"
    unfolding e_def by (rule list8 [OF assms(2)])
  show "take 8 (swap_ts (take 8 x @ y)) = take 8 (swap_ts x)"
    and "take 8 (unswap_ts (take 8 x @ y)) = take 8 (unswap_ts x)"
    unfolding y by (subst x, subst x, simp add: swap_ts_explicit unswap_ts_explicit)+
qed

lemma swap_both_layouts:
  assumes "length x = 16"
  shows "swap_ts x = [x ! 6, x ! 7, x ! 4, x ! 5, x ! 0, x ! 1, x ! 2, x ! 3] @ drop 8 x"
    and "unswap_ts x = [x ! 4, x ! 5, x ! 6, x ! 7, x ! 2, x ! 3, x ! 0, x ! 1] @ drop 8 x"
    and "drop 8 (swap_ts x) = drop 8 x" and "drop 8 (unswap_ts x) = drop 8 x"
proof -
  define c where "c i = x ! i" for i
  have x: "x = [c 0, c 1, c 2, c 3, c 4, c 5, c 6, c 7, c 8, c 9, c 10, c 11, c 12, c 13, c 14, c 15]" unfolding c_def by (rule list16 [OF assms(1)])
  have n: "x ! 0 = c 0" "x ! 1 = c 1" "x ! 2 = c 2" "x ! 3 = c 3"
    "x ! 4 = c 4" "x ! 5 = c 5" "x ! 6 = c 6" "x ! 7 = c 7"
    by (simp_all add: c_def)
  show "drop 8 (swap_ts x) = drop 8 x" and "drop 8 (unswap_ts x) = drop 8 x"
    by (subst x, subst x, simp add: swap_ts_explicit unswap_ts_explicit)+
  show "swap_ts x = [x ! 6, x ! 7, x ! 4, x ! 5, x ! 0, x ! 1, x ! 2, x ! 3] @ drop 8 x"
    and "unswap_ts x = [x ! 4, x ! 5, x ! 6, x ! 7, x ! 2, x ! 3, x ! 0, x ! 1] @ drop 8 x"
    unfolding n by (subst x, subst x, simp add: swap_ts_explicit unswap_ts_explicit)+
qed

lemma swap_ts_fixed:
  assumes "length x = 16"
  shows "swap_ts x = x \<longleftrightarrow>
     x ! 0 = x ! 2 \<and> x ! 2 = x ! 4 \<and> x ! 4 = x ! 6 \<and> x ! 1 = x ! 3 \<and> x ! 3 = x ! 5 \<and> x ! 5 = x ! 7"
proof -
  define c where "c i = x ! i" for i
  have x: "x = [c 0, c 1, c 2, c 3, c 4, c 5, c 6, c 7, c 8, c 9, c 10, c 11, c 12, c 13, c 14, c 15]"
    unfolding c_def by (rule list16 [OF assms])
  have n: "x ! 0 = c 0" "x ! 1 = c 1" "x ! 2 = c 2" "x ! 3 = c 3"
    "x ! 4 = c 4" "x ! 5 = c 5" "x ! 6 = c 6" "x ! 7 = c 7"
    by (simp_all add: c_def)
  show ?thesis
    unfolding n by (subst x, subst x, auto simp add: swap_ts_explicit)
qed

section \<open>\<open>uuid_unhexlify\<close>\<close>

text \<open>
  One turn of each loop: the loop succeeds from turn \<open>i\<close> on exactly when the
  two characters read are hexadecimal digits, the dash is where it is expected,
  and the loop succeeds from turn \<open>i + 1\<close> on.
\<close>

lemma plain_loop_step:
  "i < 16 \<Longrightarrow> fst (unhexlify_plain_loop str ptr i uuid) =
     (is_hex_digit (str ! ptr) \<and> is_hex_digit (str ! (ptr + 1)) \<and>
      fst (unhexlify_plain_loop str (ptr + 2) (i + 1)
             (uuid[i := word_of_int (push_bit 4 (hexchar_to_int (str ! ptr)) OR hexchar_to_int (str ! (ptr + 1)))])))"
  by (subst unhexlify_plain_loop.simps) (auto simp add: Let_def hexchar_neg_iff)

lemma plain_loop_stop:
  "\<not> i < 16 \<Longrightarrow> fst (unhexlify_plain_loop str ptr i uuid) = True"
  by (subst unhexlify_plain_loop.simps) simp

lemma dashed_loop_step:
  "i < 16 \<Longrightarrow> fst (unhexlify_dashed_loop str ptr i uuid) =
     (is_hex_digit (str ! ptr) \<and> is_hex_digit (str ! (ptr + 1)) \<and>
      (if i = 3 \<or> i = 5 \<or> i = 7 \<or> i = 9
       then str ! (ptr + 2) = ch CHR ''-'' \<and>
            fst (unhexlify_dashed_loop str (ptr + 2 + 1) (i + 1)
             (uuid[i := word_of_int (push_bit 4 (hexchar_to_int (str ! ptr)) OR hexchar_to_int (str ! (ptr + 1)))]))
       else fst (unhexlify_dashed_loop str (ptr + 2) (i + 1)
             (uuid[i := word_of_int (push_bit 4 (hexchar_to_int (str ! ptr)) OR hexchar_to_int (str ! (ptr + 1)))]))))"
  by (subst unhexlify_dashed_loop.simps) (auto simp add: Let_def hexchar_neg_iff)

lemma dashed_loop_stop:
  "\<not> i < 16 \<Longrightarrow> fst (unhexlify_dashed_loop str ptr i uuid) = True"
  by (subst unhexlify_dashed_loop.simps) simp

text \<open>
  The loops on a text of 32 characters, on a text of 36 characters, and on the
  36 characters between two others (the braced form, read from offset 1).
\<close>

lemma plain_loop_ok:
  "fst (unhexlify_plain_loop [c0, c1, c2, c3, c4, c5, c6, c7, c8, c9, c10, c11, c12, c13, c14, c15, c16, c17, c18, c19, c20, c21, c22, c23, c24, c25, c26, c27, c28, c29, c30, c31] 0 0 uuid)
     = (is_hex_digit c0 \<and> is_hex_digit c1 \<and> is_hex_digit c2 \<and> is_hex_digit c3 \<and> is_hex_digit c4 \<and> is_hex_digit c5 \<and> is_hex_digit c6 \<and> is_hex_digit c7 \<and> is_hex_digit c8 \<and> is_hex_digit c9 \<and> is_hex_digit c10 \<and> is_hex_digit c11 \<and> is_hex_digit c12 \<and> is_hex_digit c13 \<and> is_hex_digit c14 \<and> is_hex_digit c15 \<and> is_hex_digit c16 \<and> is_hex_digit c17 \<and> is_hex_digit c18 \<and> is_hex_digit c19 \<and> is_hex_digit c20 \<and> is_hex_digit c21 \<and> is_hex_digit c22 \<and> is_hex_digit c23 \<and> is_hex_digit c24 \<and> is_hex_digit c25 \<and> is_hex_digit c26 \<and> is_hex_digit c27 \<and> is_hex_digit c28 \<and> is_hex_digit c29 \<and> is_hex_digit c30 \<and> is_hex_digit c31)"
  by (simp add: plain_loop_step plain_loop_stop)

lemma plain_loop_bytes:
  assumes "is_hex_digit c0 \<and> is_hex_digit c1 \<and> is_hex_digit c2 \<and> is_hex_digit c3 \<and> is_hex_digit c4 \<and> is_hex_digit c5 \<and> is_hex_digit c6 \<and> is_hex_digit c7 \<and> is_hex_digit c8 \<and> is_hex_digit c9 \<and> is_hex_digit c10 \<and> is_hex_digit c11 \<and> is_hex_digit c12 \<and> is_hex_digit c13 \<and> is_hex_digit c14 \<and> is_hex_digit c15 \<and> is_hex_digit c16 \<and> is_hex_digit c17 \<and> is_hex_digit c18 \<and> is_hex_digit c19 \<and> is_hex_digit c20 \<and> is_hex_digit c21 \<and> is_hex_digit c22 \<and> is_hex_digit c23 \<and> is_hex_digit c24 \<and> is_hex_digit c25 \<and> is_hex_digit c26 \<and> is_hex_digit c27 \<and> is_hex_digit c28 \<and> is_hex_digit c29 \<and> is_hex_digit c30 \<and> is_hex_digit c31"
  shows "unhexlify_plain_loop [c0, c1, c2, c3, c4, c5, c6, c7, c8, c9, c10, c11, c12, c13, c14, c15, c16, c17, c18, c19, c20, c21, c22, c23, c24, c25, c26, c27, c28, c29, c30, c31] 0 0 [d0, d1, d2, d3, d4, d5, d6, d7, d8, d9, d10, d11, d12, d13, d14, d15]
     = (True, [byte_of_hex c0 c1, byte_of_hex c2 c3, byte_of_hex c4 c5, byte_of_hex c6 c7, byte_of_hex c8 c9, byte_of_hex c10 c11, byte_of_hex c12 c13, byte_of_hex c14 c15, byte_of_hex c16 c17, byte_of_hex c18 c19, byte_of_hex c20 c21, byte_of_hex c22 c23, byte_of_hex c24 c25, byte_of_hex c26 c27, byte_of_hex c28 c29, byte_of_hex c30 c31])"
  using assms
  by (simp add: unhexlify_plain_loop.simps Let_def hexchar_neg_iff hex_pair_byte)

lemma dashed_loop_ok:
  "fst (unhexlify_dashed_loop [c0, c1, c2, c3, c4, c5, c6, c7, c8, c9, c10, c11, c12, c13, c14, c15, c16, c17, c18, c19, c20, c21, c22, c23, c24, c25, c26, c27, c28, c29, c30, c31, c32, c33, c34, c35] 0 0 uuid)
     = (is_hex_digit c0 \<and> is_hex_digit c1 \<and> is_hex_digit c2 \<and> is_hex_digit c3 \<and> is_hex_digit c4 \<and> is_hex_digit c5 \<and> is_hex_digit c6 \<and> is_hex_digit c7 \<and> c8 = ch CHR ''-'' \<and> is_hex_digit c9 \<and> is_hex_digit c10 \<and> is_hex_digit c11 \<and> is_hex_digit c12 \<and> c13 = ch CHR ''-'' \<and> is_hex_digit c14 \<and> is_hex_digit c15 \<and> is_hex_digit c16 \<and> is_hex_digit c17 \<and> c18 = ch CHR ''-'' \<and> is_hex_digit c19 \<and> is_hex_digit c20 \<and> is_hex_digit c21 \<and> is_hex_digit c22 \<and> c23 = ch CHR ''-'' \<and> is_hex_digit c24 \<and> is_hex_digit c25 \<and> is_hex_digit c26 \<and> is_hex_digit c27 \<and> is_hex_digit c28 \<and> is_hex_digit c29 \<and> is_hex_digit c30 \<and> is_hex_digit c31 \<and> is_hex_digit c32 \<and> is_hex_digit c33 \<and> is_hex_digit c34 \<and> is_hex_digit c35)"
  by (simp add: dashed_loop_step dashed_loop_stop)

lemma dashed_loop_bytes:
  assumes "is_hex_digit c0 \<and> is_hex_digit c1 \<and> is_hex_digit c2 \<and> is_hex_digit c3 \<and> is_hex_digit c4 \<and> is_hex_digit c5 \<and> is_hex_digit c6 \<and> is_hex_digit c7 \<and> c8 = ch CHR ''-'' \<and> is_hex_digit c9 \<and> is_hex_digit c10 \<and> is_hex_digit c11 \<and> is_hex_digit c12 \<and> c13 = ch CHR ''-'' \<and> is_hex_digit c14 \<and> is_hex_digit c15 \<and> is_hex_digit c16 \<and> is_hex_digit c17 \<and> c18 = ch CHR ''-'' \<and> is_hex_digit c19 \<and> is_hex_digit c20 \<and> is_hex_digit c21 \<and> is_hex_digit c22 \<and> c23 = ch CHR ''-'' \<and> is_hex_digit c24 \<and> is_hex_digit c25 \<and> is_hex_digit c26 \<and> is_hex_digit c27 \<and> is_hex_digit c28 \<and> is_hex_digit c29 \<and> is_hex_digit c30 \<and> is_hex_digit c31 \<and> is_hex_digit c32 \<and> is_hex_digit c33 \<and> is_hex_digit c34 \<and> is_hex_digit c35"
  shows "unhexlify_dashed_loop [c0, c1, c2, c3, c4, c5, c6, c7, c8, c9, c10, c11, c12, c13, c14, c15, c16, c17, c18, c19, c20, c21, c22, c23, c24, c25, c26, c27, c28, c29, c30, c31, c32, c33, c34, c35] 0 0 [d0, d1, d2, d3, d4, d5, d6, d7, d8, d9, d10, d11, d12, d13, d14, d15]
     = (True, [byte_of_hex c0 c1, byte_of_hex c2 c3, byte_of_hex c4 c5, byte_of_hex c6 c7, byte_of_hex c9 c10, byte_of_hex c11 c12, byte_of_hex c14 c15, byte_of_hex c16 c17, byte_of_hex c19 c20, byte_of_hex c21 c22, byte_of_hex c24 c25, byte_of_hex c26 c27, byte_of_hex c28 c29, byte_of_hex c30 c31, byte_of_hex c32 c33, byte_of_hex c34 c35])"
  using assms
  by (simp add: unhexlify_dashed_loop.simps Let_def hexchar_neg_iff hex_pair_byte)

lemma dashed_loop_ok1:
  "fst (unhexlify_dashed_loop (x # [c0, c1, c2, c3, c4, c5, c6, c7, c8, c9, c10, c11, c12, c13, c14, c15, c16, c17, c18, c19, c20, c21, c22, c23, c24, c25, c26, c27, c28, c29, c30, c31, c32, c33, c34, c35] @ ys) 1 0 uuid)
     = (is_hex_digit c0 \<and> is_hex_digit c1 \<and> is_hex_digit c2 \<and> is_hex_digit c3 \<and> is_hex_digit c4 \<and> is_hex_digit c5 \<and> is_hex_digit c6 \<and> is_hex_digit c7 \<and> c8 = ch CHR ''-'' \<and> is_hex_digit c9 \<and> is_hex_digit c10 \<and> is_hex_digit c11 \<and> is_hex_digit c12 \<and> c13 = ch CHR ''-'' \<and> is_hex_digit c14 \<and> is_hex_digit c15 \<and> is_hex_digit c16 \<and> is_hex_digit c17 \<and> c18 = ch CHR ''-'' \<and> is_hex_digit c19 \<and> is_hex_digit c20 \<and> is_hex_digit c21 \<and> is_hex_digit c22 \<and> c23 = ch CHR ''-'' \<and> is_hex_digit c24 \<and> is_hex_digit c25 \<and> is_hex_digit c26 \<and> is_hex_digit c27 \<and> is_hex_digit c28 \<and> is_hex_digit c29 \<and> is_hex_digit c30 \<and> is_hex_digit c31 \<and> is_hex_digit c32 \<and> is_hex_digit c33 \<and> is_hex_digit c34 \<and> is_hex_digit c35)"
  by (simp add: dashed_loop_step dashed_loop_stop)

lemma dashed_loop_bytes1:
  assumes "is_hex_digit c0 \<and> is_hex_digit c1 \<and> is_hex_digit c2 \<and> is_hex_digit c3 \<and> is_hex_digit c4 \<and> is_hex_digit c5 \<and> is_hex_digit c6 \<and> is_hex_digit c7 \<and> c8 = ch CHR ''-'' \<and> is_hex_digit c9 \<and> is_hex_digit c10 \<and> is_hex_digit c11 \<and> is_hex_digit c12 \<and> c13 = ch CHR ''-'' \<and> is_hex_digit c14 \<and> is_hex_digit c15 \<and> is_hex_digit c16 \<and> is_hex_digit c17 \<and> c18 = ch CHR ''-'' \<and> is_hex_digit c19 \<and> is_hex_digit c20 \<and> is_hex_digit c21 \<and> is_hex_digit c22 \<and> c23 = ch CHR ''-'' \<and> is_hex_digit c24 \<and> is_hex_digit c25 \<and> is_hex_digit c26 \<and> is_hex_digit c27 \<and> is_hex_digit c28 \<and> is_hex_digit c29 \<and> is_hex_digit c30 \<and> is_hex_digit c31 \<and> is_hex_digit c32 \<and> is_hex_digit c33 \<and> is_hex_digit c34 \<and> is_hex_digit c35"
  shows "unhexlify_dashed_loop (x # [c0, c1, c2, c3, c4, c5, c6, c7, c8, c9, c10, c11, c12, c13, c14, c15, c16, c17, c18, c19, c20, c21, c22, c23, c24, c25, c26, c27, c28, c29, c30, c31, c32, c33, c34, c35] @ ys) 1 0 [d0, d1, d2, d3, d4, d5, d6, d7, d8, d9, d10, d11, d12, d13, d14, d15]
     = (True, [byte_of_hex c0 c1, byte_of_hex c2 c3, byte_of_hex c4 c5, byte_of_hex c6 c7, byte_of_hex c9 c10, byte_of_hex c11 c12, byte_of_hex c14 c15, byte_of_hex c16 c17, byte_of_hex c19 c20, byte_of_hex c21 c22, byte_of_hex c24 c25, byte_of_hex c26 c27, byte_of_hex c28 c29, byte_of_hex c30 c31, byte_of_hex c32 c33, byte_of_hex c34 c35])"
  using assms
  by (simp add: unhexlify_dashed_loop.simps Let_def hexchar_neg_iff hex_pair_byte)

lemma not_hex_special [simp]:
  "\<not> is_hex_digit dash" "\<not> is_hex_digit (ch CHR ''-'')"
  "\<not> is_hex_digit (ch CHR ''{'')" "\<not> is_hex_digit (ch CHR ''}'')"
  by (simp_all add: is_hex_digit_def dash_def ch_def)

text \<open>
  The conversion of the length to \<open>int\<close> does not change a length below
  \<open>2^32\<close> as far as the comparisons with 32, 36 and 38 go.
\<close>

lemma int_of_ulong_eq_iff:
  assumes "n < 2 ^ 32" "0 \<le> k" "k < 2 ^ 31"
  shows "int_of_ulong n = k \<longleftrightarrow> int n = k"
proof -
  have w: "(word_of_nat n :: 32 word) = word_of_int (int n)" by simp
  have s: "int_of_ulong n = signed_take_bit 31 (int n)"
    unfolding int_of_ulong_def w sint_sbintrunc' by simp
  show ?thesis
  proof (cases "int n < 2 ^ 31")
    case True
    then have "signed_take_bit 31 (int n) = int n"
      by (intro signed_take_bit_int_eq_self) simp_all
    then show ?thesis by (simp add: s)
  next
    case False
    then have "signed_take_bit 31 (int n) \<le> int n - 2 ^ Suc 31"
      by (intro signed_take_bit_int_less_eq) simp
    then have "int_of_ulong n \<le> int n - 4294967296" unfolding s by simp
    moreover have "int n < 4294967296" using assms(1) by simp
    ultimately have "int_of_ulong n < 0" by linarith
    then show ?thesis using False assms by simp
  qed
qed

text \<open>
  \<open>uuid_unhexlify\<close> succeeds exactly on the three forms and then delivers
  the bytes of the text, whatever the output buffer held before.
\<close>

lemma unhexlify_plain:
  assumes "length str = 32" "length d = 16"
  shows "fst (uuid_unhexlify str 32 d) = uuid_form_plain str"
    and "uuid_form_plain str \<Longrightarrow> uuid_unhexlify str 32 d = (True, uuid_bytes str)"
proof -
  define c where "c i = str ! i" for i
  define e where "e i = d ! i" for i
  have str: "str = [c 0, c 1, c 2, c 3, c 4, c 5, c 6, c 7, c 8, c 9, c 10, c 11, c 12, c 13, c 14, c 15, c 16, c 17, c 18, c 19, c 20, c 21, c 22, c 23, c 24, c 25, c 26, c 27, c 28, c 29, c 30, c 31]"
    unfolding c_def by (rule list32 [OF assms(1)])
  have d: "d = [e 0, e 1, e 2, e 3, e 4, e 5, e 6, e 7, e 8, e 9, e 10, e 11, e 12, e 13, e 14, e 15]"
    unfolding e_def by (rule list16 [OF assms(2)])
  show "fst (uuid_unhexlify str 32 d) = uuid_form_plain str"
    unfolding str by (simp add: uuid_unhexlify_def plain_loop_ok uuid_form_plain_def)
  show "uuid_unhexlify str 32 d = (True, uuid_bytes str)" if "uuid_form_plain str"
    using that unfolding str d
    by (simp add: uuid_unhexlify_def plain_loop_bytes uuid_form_plain_def uuid_bytes_def)
qed

lemma unhexlify_dashed:
  assumes "length str = 36" "length d = 16"
  shows "fst (uuid_unhexlify str 36 d) = uuid_form_dashed str"
    and "uuid_form_dashed str \<Longrightarrow> uuid_unhexlify str 36 d = (True, uuid_bytes str)"
proof -
  define c where "c i = str ! i" for i
  define e where "e i = d ! i" for i
  have str: "str = [c 0, c 1, c 2, c 3, c 4, c 5, c 6, c 7, c 8, c 9, c 10, c 11, c 12, c 13, c 14, c 15, c 16, c 17, c 18, c 19, c 20, c 21, c 22, c 23, c 24, c 25, c 26, c 27, c 28, c 29, c 30, c 31, c 32, c 33, c 34, c 35]"
    unfolding c_def by (rule list36 [OF assms(1)])
  have d: "d = [e 0, e 1, e 2, e 3, e 4, e 5, e 6, e 7, e 8, e 9, e 10, e 11, e 12, e 13, e 14, e 15]"
    unfolding e_def by (rule list16 [OF assms(2)])
  show "fst (uuid_unhexlify str 36 d) = uuid_form_dashed str"
    unfolding str by (auto simp add: uuid_unhexlify_def dashed_loop_ok uuid_form_dashed_def dash_def)
  show "uuid_unhexlify str 36 d = (True, uuid_bytes str)" if "uuid_form_dashed str"
    using that unfolding str d
    by (simp add: uuid_unhexlify_def dashed_loop_bytes uuid_form_dashed_def uuid_bytes_def dash_def)
qed

lemma unhexlify_braced:
  assumes "length str = 38" "length d = 16"
  shows "fst (uuid_unhexlify str 38 d) = uuid_form_braced str"
    and "uuid_form_braced str \<Longrightarrow> uuid_unhexlify str 38 d = (True, uuid_bytes str)"
proof -
  define c where "c i = str ! i" for i
  define e where "e i = d ! i" for i
  have str: "str = [c 0, c 1, c 2, c 3, c 4, c 5, c 6, c 7, c 8, c 9, c 10, c 11, c 12, c 13, c 14, c 15, c 16, c 17, c 18, c 19, c 20, c 21, c 22, c 23, c 24, c 25, c 26, c 27, c 28, c 29, c 30, c 31, c 32, c 33, c 34, c 35, c 36, c 37]"
    unfolding c_def by (rule list38 [OF assms(1)])
  have d: "d = [e 0, e 1, e 2, e 3, e 4, e 5, e 6, e 7, e 8, e 9, e 10, e 11, e 12, e 13, e 14, e 15]"
    unfolding e_def by (rule list16 [OF assms(2)])
  note ok = dashed_loop_ok1 [where ys = "[y]" for y, simplified]
  note bytes = dashed_loop_bytes1 [where ys = "[y]" for y, simplified]
  show "fst (uuid_unhexlify str 38 d) = uuid_form_braced str"
    unfolding str by (auto simp add: uuid_unhexlify_def ok uuid_form_braced_def uuid_form_dashed_def dash_def)
  show "uuid_unhexlify str 38 d = (True, uuid_bytes str)" if "uuid_form_braced str"
    using that unfolding str d
    by (simp add: uuid_unhexlify_def bytes uuid_form_braced_def uuid_form_dashed_def uuid_bytes_def dash_def)
qed

lemma uuid_unhexlify_other:
  assumes "len \<noteq> 32" "len \<noteq> 36" "len \<noteq> 38"
  shows "uuid_unhexlify str len d = (False, d)"
  using assms by (simp add: uuid_unhexlify_def)

lemma uuid_unhexlify_spec:
  assumes "length str < 2 ^ 32" "length d = 16"
  shows "fst (uuid_unhexlify str (int_of_ulong (length str)) d) = valid_uuid_text str"
    and "valid_uuid_text str \<Longrightarrow>
           uuid_unhexlify str (int_of_ulong (length str)) d = (True, uuid_bytes str)"
proof -
  define n where "n = length str"
  have k: "int_of_ulong n = 32 \<longleftrightarrow> n = 32" "int_of_ulong n = 36 \<longleftrightarrow> n = 36"
    "int_of_ulong n = 38 \<longleftrightarrow> n = 38"
    using assms(1) by (simp_all add: int_of_ulong_eq_iff n_def)
  have v: "valid_uuid_text str =
      (if n = 32 then uuid_form_plain str else if n = 36 then uuid_form_dashed str
       else if n = 38 then uuid_form_braced str else False)"
    by (auto simp add: valid_uuid_text_def uuid_form_plain_def uuid_form_dashed_def
        uuid_form_braced_def n_def)
  consider "n = 32" | "n = 36" | "n = 38" | "n \<noteq> 32" "n \<noteq> 36" "n \<noteq> 38" by blast
  then have "fst (uuid_unhexlify str (int_of_ulong n) d) = valid_uuid_text str \<and>
    (valid_uuid_text str \<longrightarrow> uuid_unhexlify str (int_of_ulong n) d = (True, uuid_bytes str))"
  proof cases
    case 1
    then have "int_of_ulong n = 32" using k by blast
    then show ?thesis
      using 1 unhexlify_plain [of str d] assms(2) by (simp add: v n_def)
  next
    case 2
    then have "int_of_ulong n = 36" using k by blast
    then show ?thesis
      using 2 unhexlify_dashed [of str d] assms(2) by (simp add: v n_def)
  next
    case 3
    then have "int_of_ulong n = 38" using k by blast
    then show ?thesis
      using 3 unhexlify_braced [of str d] assms(2) by (simp add: v n_def)
  next
    case 4
    then have "int_of_ulong n \<noteq> 32" "int_of_ulong n \<noteq> 36" "int_of_ulong n \<noteq> 38"
      using k by blast+
    then have "uuid_unhexlify str (int_of_ulong n) d = (False, d)"
      by (rule uuid_unhexlify_other)
    then show ?thesis using 4 by (simp add: v)
  qed
  then show "fst (uuid_unhexlify str (int_of_ulong (length str)) d) = valid_uuid_text str"
    and "valid_uuid_text str \<Longrightarrow>
           uuid_unhexlify str (int_of_ulong (length str)) d = (True, uuid_bytes str)"
    by (simp_all add: n_def)
qed

section \<open>\<open>uuid_hexlify\<close>\<close>

text \<open>
  \<open>uuid_hexlify\<close> writes the lowercase dashed text of the sixteen bytes to
  the first 36 bytes of \<open>out\<close> and nothing else.
\<close>

lemma hexlify_explicit:
  "uuid_hexlify [b0, b1, b2, b3, b4, b5, b6, b7, b8, b9, b10, b11, b12, b13, b14, b15] ([o0, o1, o2, o3, o4, o5, o6, o7, o8, o9, o10, o11, o12, o13, o14, o15, o16, o17, o18, o19, o20, o21, o22, o23, o24, o25, o26, o27, o28, o29, o30, o31, o32, o33, o34, o35] @ rest) = uuid_text [b0, b1, b2, b3, b4, b5, b6, b7, b8, b9, b10, b11, b12, b13, b14, b15] @ rest"
  by (simp add: uuid_hexlify_def hexlify_loop.simps Let_def hexlify_digits
      uuid_text_def dashed_def hex_of_byte_def dash_def)

lemma uuid_hexlify_spec:
  assumes "length b = 16" "36 \<le> length out"
  shows "uuid_hexlify b out = uuid_text b @ drop 36 out"
proof -
  define c where "c i = b ! i" for i
  define e where "e i = out ! i" for i
  have b: "b = [c 0, c 1, c 2, c 3, c 4, c 5, c 6, c 7, c 8, c 9, c 10, c 11, c 12, c 13, c 14, c 15]" unfolding c_def by (rule list16 [OF assms(1)])
  have out: "out = [e 0, e 1, e 2, e 3, e 4, e 5, e 6, e 7, e 8, e 9, e 10, e 11, e 12, e 13, e 14, e 15, e 16, e 17, e 18, e 19, e 20, e 21, e 22, e 23, e 24, e 25, e 26, e 27, e 28, e 29, e 30, e 31, e 32, e 33, e 34, e 35] @ drop 36 out" unfolding e_def by (rule list36_prefix [OF assms(2)])
  show ?thesis
    by (subst out, subst b, subst b) (rule hexlify_explicit)
qed

section \<open>Texts and bytes\<close>

text \<open>
  The text of the bytes of a valid text is its canonical form; the text of
  sixteen bytes is in the dashed form, in lowercase, and has these bytes.
\<close>

lemma text_of_bytes_plain:
  assumes "uuid_form_plain t"
  shows "uuid_text (uuid_bytes t) = canonical t" and "length (uuid_bytes t) = 16"
proof -
  define c where "c i = t ! i" for i
  have len: "length t = 32" using assms by (simp add: uuid_form_plain_def)
  have t: "t = [c 0, c 1, c 2, c 3, c 4, c 5, c 6, c 7, c 8, c 9, c 10, c 11, c 12, c 13, c 14, c 15, c 16, c 17, c 18, c 19, c 20, c 21, c 22, c 23, c 24, c 25, c 26, c 27, c 28, c 29, c 30, c 31]" unfolding c_def by (rule list32 [OF len])
  show "uuid_text (uuid_bytes t) = canonical t" and "length (uuid_bytes t) = 16"
    using assms unfolding t
    by (simp_all add: uuid_form_plain_def uuid_bytes_def uuid_text_def canonical_def hex_of_byte_of_hex)
qed

lemma text_of_bytes_dashed:
  assumes "uuid_form_dashed t"
  shows "uuid_text (uuid_bytes t) = canonical t" and "length (uuid_bytes t) = 16"
proof -
  define c where "c i = t ! i" for i
  have len: "length t = 36" using assms by (simp add: uuid_form_dashed_def)
  have t: "t = [c 0, c 1, c 2, c 3, c 4, c 5, c 6, c 7, c 8, c 9, c 10, c 11, c 12, c 13, c 14, c 15, c 16, c 17, c 18, c 19, c 20, c 21, c 22, c 23, c 24, c 25, c 26, c 27, c 28, c 29, c 30, c 31, c 32, c 33, c 34, c 35]" unfolding c_def by (rule list36 [OF len])
  show "uuid_text (uuid_bytes t) = canonical t" and "length (uuid_bytes t) = 16"
    using assms unfolding t
    by (simp_all add: uuid_form_dashed_def uuid_bytes_def uuid_text_def canonical_def hex_of_byte_of_hex)
qed

lemma text_of_bytes_braced:
  assumes "uuid_form_braced t"
  shows "uuid_text (uuid_bytes t) = canonical t" and "length (uuid_bytes t) = 16"
proof -
  define c where "c i = t ! i" for i
  have len: "length t = 38" using assms by (simp add: uuid_form_braced_def)
  have t: "t = [c 0, c 1, c 2, c 3, c 4, c 5, c 6, c 7, c 8, c 9, c 10, c 11, c 12, c 13, c 14, c 15, c 16, c 17, c 18, c 19, c 20, c 21, c 22, c 23, c 24, c 25, c 26, c 27, c 28, c 29, c 30, c 31, c 32, c 33, c 34, c 35, c 36, c 37]" unfolding c_def by (rule list38 [OF len])
  show "uuid_text (uuid_bytes t) = canonical t" and "length (uuid_bytes t) = 16"
    using assms unfolding t
    by (simp_all add: uuid_form_braced_def uuid_form_dashed_def uuid_bytes_def uuid_text_def
        canonical_def hex_of_byte_of_hex)
qed

lemma text_of_bytes:
  assumes "valid_uuid_text t"
  shows "uuid_text (uuid_bytes t) = canonical t" and "length (uuid_bytes t) = 16"
  using assms text_of_bytes_plain text_of_bytes_dashed text_of_bytes_braced
  unfolding valid_uuid_text_def by blast+

lemma nibble_hex [simp]:
  fixes b :: byte
  shows "is_hex_digit (lower_hex_char (unat b div 16))"
    and "is_hex_digit (lower_hex_char (unat b mod 16))"
    and "to_lower (lower_hex_char (unat b div 16)) = lower_hex_char (unat b div 16)"
    and "to_lower (lower_hex_char (unat b mod 16)) = lower_hex_char (unat b mod 16)"
proof -
  have "unat b < 256" using unsigned_less [of b, where 'a = nat] by simp
  then have "unat b div 16 < 16" "unat b mod 16 < 16" by simp_all
  then show "is_hex_digit (lower_hex_char (unat b div 16))"
    and "is_hex_digit (lower_hex_char (unat b mod 16))"
    and "to_lower (lower_hex_char (unat b div 16)) = lower_hex_char (unat b div 16)"
    and "to_lower (lower_hex_char (unat b mod 16)) = lower_hex_char (unat b mod 16)"
    by (simp_all add: lower_hex_char_props)
qed

lemma to_lower_dash [simp]: "to_lower dash = dash"
  by (simp add: to_lower_def dash_def ch_def)

lemma uuid_text_props:
  assumes "length b = 16"
  shows "length (uuid_text b) = 36"
    and "uuid_form_dashed (uuid_text b)"
    and "list_all (\<lambda>c. to_lower c = c) (uuid_text b)"
    and "uuid_bytes (uuid_text b) = b"
proof -
  define c where "c i = b ! i" for i
  have b: "b = [c 0, c 1, c 2, c 3, c 4, c 5, c 6, c 7, c 8, c 9, c 10, c 11, c 12, c 13, c 14, c 15]" unfolding c_def by (rule list16 [OF assms])
  show "length (uuid_text b) = 36"
    and "uuid_form_dashed (uuid_text b)"
    and "list_all (\<lambda>c. to_lower c = c) (uuid_text b)"
    by (subst b, simp add: uuid_text_def dashed_def hex_of_byte_def uuid_form_dashed_def)+
  show "uuid_bytes (uuid_text b) = b"
    by (subst b, subst b)
       (simp add: uuid_text_def dashed_def hex_of_byte_def uuid_bytes_def byte_of_hex_of_byte)
qed

lemma uuid_text_inject:
  assumes "length p = 16" "length q = 16" "uuid_text p = uuid_text q"
  shows "p = q"
proof -
  have "uuid_bytes (uuid_text p) = uuid_bytes (uuid_text q)" using assms(3) by simp
  then show ?thesis by (simp add: uuid_text_props(4) assms(1,2))
qed

section \<open>The three functions\<close>

lemma lengths_first:
  assumes "args a \<noteq> []" "args a ! 0 = Some s"
  shows "lengths a ! 0 = length s"
  using assms by (simp add: lengths_def)

lemma memcpy_prefix:
  assumes "length src = n" "n \<le> length dst"
  shows "memcpy dst 0 src 0 n = src @ drop n dst"
  using assms by (simp add: memcpy_def)

lemma memcpy_all:
  assumes "length src = n"
  shows "memcpy (replicate n x) 0 src 0 n = src"
  using assms by (simp add: memcpy_def)

subsection \<open>\<open>is_uuid\<close>\<close>

lemma is_uuid_absent:
  assumes "args a ! 0 = None"
  shows "is_uuid a n = (0, 1)"
  using assms by (simp add: is_uuid_def)

lemma is_uuid_present:
  assumes "args a \<noteq> []" "args a ! 0 = Some t" "length t < 2 ^ 32"
  shows "is_uuid a n = (if arg_type a ! 0 = STRING_RESULT \<and> valid_uuid_text t then 1 else 0, n)"
proof -
  obtain ok d where r: "uuid_unhexlify t (int_of_ulong (length t)) (replicate 16 0) = (ok, d)"
    by (cases "uuid_unhexlify t (int_of_ulong (length t)) (replicate 16 0)")
  have "ok = valid_uuid_text t"
    using uuid_unhexlify_spec(1) [of t "replicate 16 0"] assms(3) r by simp
  then show ?thesis
    using assms r by (simp add: is_uuid_def lengths_first)
qed

subsection \<open>\<open>uuid_to_bin\<close>\<close>

lemma uuid_to_bin_absent:
  assumes "args a ! 0 = None"
  shows "uuid_to_bin a out = Inr (Null_ptr, out\<lparr>is_null := 1\<rparr>)"
  using assms by (simp add: uuid_to_bin_def)

lemma uuid_to_bin_present:
  assumes "args a \<noteq> []" "args a ! 0 = Some t" "length t < 2 ^ 32" "swap_flag a = Inr s"
  shows "uuid_to_bin a out =
      (if valid_uuid_text t
       then Inr (Result_ptr,
              out\<lparr>result := memcpy (result out) 0 (if s then swap_ts (uuid_bytes t) else uuid_bytes t) 0 16,
                  out_length := 16\<rparr>)
       else Inr (Null_ptr, out\<lparr>is_error := 1\<rparr>))"
proof -
  obtain ok d where r: "uuid_unhexlify t (int_of_ulong (length t)) (replicate 16 0) = (ok, d)"
    by (cases "uuid_unhexlify t (int_of_ulong (length t)) (replicate 16 0)")
  have ok: "ok = valid_uuid_text t"
    using uuid_unhexlify_spec(1) [of t "replicate 16 0"] assms(3) r by simp
  have d: "d = uuid_bytes t" if "valid_uuid_text t"
    using uuid_unhexlify_spec(2) [of t "replicate 16 0"] assms(3) r that by simp
  show ?thesis
    using assms r ok d by (simp add: uuid_to_bin_def lengths_first)
qed

lemma uuid_to_bin_valid:
  assumes "args a \<noteq> []" "args a ! 0 = Some t" "valid_uuid_text t" "swap_flag a = Inr s"
    "16 \<le> length (result out)"
  shows "uuid_to_bin a out =
      Inr (Result_ptr,
           out\<lparr>result := (if s then swap_ts (uuid_bytes t) else uuid_bytes t) @ drop 16 (result out),
               out_length := 16\<rparr>)"
    and "returned (uuid_to_bin a out) = Some (if s then swap_ts (uuid_bytes t) else uuid_bytes t)"
    and "length (if s then swap_ts (uuid_bytes t) else uuid_bytes t) = 16"
proof -
  have "length t = 32 \<or> length t = 36 \<or> length t = 38"
    using assms(3)
    by (auto simp add: valid_uuid_text_def uuid_form_plain_def uuid_form_dashed_def uuid_form_braced_def)
  then have len: "length t < 2 ^ 32" by auto
  have l: "length (if s then swap_ts (uuid_bytes t) else uuid_bytes t) = 16"
    using text_of_bytes(2) [OF assms(3)] by (simp add: swap_ts_props)
  show u: "uuid_to_bin a out =
      Inr (Result_ptr,
           out\<lparr>result := (if s then swap_ts (uuid_bytes t) else uuid_bytes t) @ drop 16 (result out),
               out_length := 16\<rparr>)"
    unfolding uuid_to_bin_present [OF assms(1,2) len assms(4)]
    using assms(3) memcpy_prefix [OF l assms(5)] by simp
  show "returned (uuid_to_bin a out) = Some (if s then swap_ts (uuid_bytes t) else uuid_bytes t)"
    unfolding u using l by (simp add: returned_def)
  show "length (if s then swap_ts (uuid_bytes t) else uuid_bytes t) = 16" by (rule l)
qed

lemma out_flags_differ:
  assumes "is_null out = 0"
  shows "out\<lparr>is_error := 1\<rparr> \<noteq> out\<lparr>is_null := 1\<rparr>"
proof
  assume "out\<lparr>is_error := 1\<rparr> = out\<lparr>is_null := 1\<rparr>"
  then have "is_null (out\<lparr>is_error := 1\<rparr>) = is_null (out\<lparr>is_null := 1\<rparr>)" by simp
  then show False using assms by simp
qed

lemma uuid_to_bin_null_iff:
  assumes "is_null out = 0"
  shows "uuid_to_bin a out = Inr (Null_ptr, out\<lparr>is_null := 1\<rparr>) \<longleftrightarrow> args a ! 0 = None"
proof
  assume "args a ! 0 = None"
  then show "uuid_to_bin a out = Inr (Null_ptr, out\<lparr>is_null := 1\<rparr>)"
    by (rule uuid_to_bin_absent)
next
  assume r: "uuid_to_bin a out = Inr (Null_ptr, out\<lparr>is_null := 1\<rparr>)"
  show "args a ! 0 = None"
  proof (cases "args a ! 0")
    case None
    then show ?thesis .
  next
    case (Some t)
    then show ?thesis
      using r out_flags_differ [OF assms]
      by (auto simp add: uuid_to_bin_def Let_def split: sum.splits prod.splits if_splits)
  qed
qed

lemma uuid_to_bin_contract:
  assumes "args a \<noteq> []" "swap_flag a = Inr s" "is_null out = 0" "16 \<le> length (result out)"
  shows "(uuid_to_bin a out = Inr (Null_ptr, out\<lparr>is_null := 1\<rparr>) \<longleftrightarrow> args a ! 0 = None) \<and>
     (\<forall>t. args a ! 0 = Some t \<and> length t < 2 ^ 32 \<longrightarrow>
        (uuid_to_bin a out = Inr (Null_ptr, out\<lparr>is_error := 1\<rparr>) \<longleftrightarrow> \<not> valid_uuid_text t) \<and>
        (valid_uuid_text t \<longrightarrow>
           uuid_to_bin a out =
             Inr (Result_ptr,
                  out\<lparr>result := (if s then swap_ts (uuid_bytes t) else uuid_bytes t) @ drop 16 (result out),
                      out_length := 16\<rparr>) \<and>
           returned (uuid_to_bin a out) = Some (if s then swap_ts (uuid_bytes t) else uuid_bytes t) \<and>
           length (uuid_bytes t) = 16))"
proof (intro conjI allI impI)
  show "uuid_to_bin a out = Inr (Null_ptr, out\<lparr>is_null := 1\<rparr>) \<longleftrightarrow> args a ! 0 = None"
    by (rule uuid_to_bin_null_iff [OF assms(3)])
next
  fix t assume t: "args a ! 0 = Some t \<and> length t < 2 ^ 32"
  show "uuid_to_bin a out = Inr (Null_ptr, out\<lparr>is_error := 1\<rparr>) \<longleftrightarrow> \<not> valid_uuid_text t"
    using uuid_to_bin_present [OF assms(1) _ _ assms(2), of t out] t by simp
next
  fix t assume t: "args a ! 0 = Some t \<and> length t < 2 ^ 32" and v: "valid_uuid_text t"
  from t have t0: "args a ! 0 = Some t" by simp
  show "uuid_to_bin a out =
             Inr (Result_ptr,
                  out\<lparr>result := (if s then swap_ts (uuid_bytes t) else uuid_bytes t) @ drop 16 (result out),
                      out_length := 16\<rparr>)"
    by (rule uuid_to_bin_valid(1) [OF assms(1) t0 v assms(2,4)])
  show "returned (uuid_to_bin a out) = Some (if s then swap_ts (uuid_bytes t) else uuid_bytes t)"
    by (rule uuid_to_bin_valid(2) [OF assms(1) t0 v assms(2,4)])
  show "length (uuid_bytes t) = 16"
    by (rule text_of_bytes(2) [OF v])
qed

lemma uuid_to_bin_init_rejects:
  assumes "1 \<le> arg_count a" "arg_count a \<le> 2" "arg_type a ! 0 \<noteq> STRING_RESULT"
  shows "uuid_to_bin_init initid a message =
           (1, initid, ''UUID_TO_BIN requires first argument as string'')"
  using assms by (simp add: uuid_to_bin_init_def)

lemma uuid_to_bin_init_accepts:
  assumes "fst (uuid_to_bin_init initid a message) = 0"
  shows "arg_type a ! 0 = STRING_RESULT"
  using assms by (simp add: uuid_to_bin_init_def split: if_splits)

subsection \<open>\<open>bin_to_uuid\<close>\<close>

lemma bin_to_uuid_absent:
  assumes "args a ! 0 = None"
  shows "bin_to_uuid a out = Inr (Null_ptr, out\<lparr>is_null := 1\<rparr>)"
  using assms by (simp add: bin_to_uuid_def)

lemma bin_to_uuid_wrong_length:
  assumes "args a \<noteq> []" "args a ! 0 = Some b" "length b \<noteq> 16"
  shows "bin_to_uuid a out = Inr (Null_ptr, out\<lparr>is_error := 1\<rparr>)"
  using assms by (simp add: bin_to_uuid_def lengths_first)

lemma bin_to_uuid_16:
  assumes "args a \<noteq> []" "args a ! 0 = Some b" "length b = 16" "swap_flag a = Inr s"
    "36 \<le> length (result out)"
  shows "bin_to_uuid a out =
      Inr (Result_ptr,
           out\<lparr>result := uuid_text (if s then unswap_ts b else b) @ drop 36 (result out),
               out_length := 36\<rparr>)"
    and "returned (bin_to_uuid a out) = Some (uuid_text (if s then unswap_ts b else b))"
    and "length (if s then unswap_ts b else b) = 16"
proof -
  have l: "length (if s then unswap_ts b else b) = 16"
    using assms(3) by (simp add: swap_ts_props)
  have m: "memcpy (replicate 16 0) 0 b 0 16 = b"
    using assms(3) by (rule memcpy_all)
  show u: "bin_to_uuid a out =
      Inr (Result_ptr,
           out\<lparr>result := uuid_text (if s then unswap_ts b else b) @ drop 36 (result out),
               out_length := 36\<rparr>)"
    using assms(1,2,3,4) uuid_hexlify_spec [OF l assms(5)]
    by (simp add: bin_to_uuid_def lengths_first m Let_def)
  show "returned (bin_to_uuid a out) = Some (uuid_text (if s then unswap_ts b else b))"
    unfolding u using uuid_text_props(1) [OF l] by (simp add: returned_def)
  show "length (if s then unswap_ts b else b) = 16" by (rule l)
qed

lemma bin_to_uuid_null_iff:
  assumes "is_null out = 0"
  shows "bin_to_uuid a out = Inr (Null_ptr, out\<lparr>is_null := 1\<rparr>) \<longleftrightarrow> args a ! 0 = None"
proof
  assume "args a ! 0 = None"
  then show "bin_to_uuid a out = Inr (Null_ptr, out\<lparr>is_null := 1\<rparr>)"
    by (rule bin_to_uuid_absent)
next
  assume r: "bin_to_uuid a out = Inr (Null_ptr, out\<lparr>is_null := 1\<rparr>)"
  show "args a ! 0 = None"
  proof (cases "args a ! 0")
    case None
    then show ?thesis .
  next
    case (Some t)
    then show ?thesis
      using r out_flags_differ [OF assms]
      by (auto simp add: bin_to_uuid_def Let_def split: sum.splits prod.splits if_splits)
  qed
qed

lemma bin_to_uuid_contract:
  assumes "args a \<noteq> []" "swap_flag a = Inr s" "is_null out = 0" "36 \<le> length (result out)"
  shows "(bin_to_uuid a out = Inr (Null_ptr, out\<lparr>is_null := 1\<rparr>) \<longleftrightarrow> args a ! 0 = None) \<and>
     (\<forall>b. args a ! 0 = Some b \<longrightarrow>
        (bin_to_uuid a out = Inr (Null_ptr, out\<lparr>is_error := 1\<rparr>) \<longleftrightarrow> length b \<noteq> 16) \<and>
        (length b = 16 \<longrightarrow>
           bin_to_uuid a out =
             Inr (Result_ptr,
                  out\<lparr>result := uuid_text (if s then unswap_ts b else b) @ drop 36 (result out),
                      out_length := 36\<rparr>) \<and>
           returned (bin_to_uuid a out) = Some (uuid_text (if s then unswap_ts b else b)) \<and>
           length (uuid_text (if s then unswap_ts b else b)) = 36 \<and>
           uuid_form_dashed (uuid_text (if s then unswap_ts b else b)) \<and>
           list_all (\<lambda>c. to_lower c = c) (uuid_text (if s then unswap_ts b else b))))"
proof (intro conjI allI impI)
  show "bin_to_uuid a out = Inr (Null_ptr, out\<lparr>is_null := 1\<rparr>) \<longleftrightarrow> args a ! 0 = None"
    by (rule bin_to_uuid_null_iff [OF assms(3)])
next
  fix b assume b: "args a ! 0 = Some b"
  show "bin_to_uuid a out = Inr (Null_ptr, out\<lparr>is_error := 1\<rparr>) \<longleftrightarrow> length b \<noteq> 16"
  proof (cases "length b = 16")
    case True
    then show ?thesis
      using bin_to_uuid_16(1) [OF assms(1) b True assms(2,4)] by simp
  next
    case False
    then show ?thesis
      using bin_to_uuid_wrong_length [OF assms(1) b False] by simp
  qed
next
  fix b assume b: "args a ! 0 = Some b" and l: "length b = 16"
  note r = bin_to_uuid_16 [OF assms(1) b l assms(2,4)]
  show "bin_to_uuid a out =
             Inr (Result_ptr,
                  out\<lparr>result := uuid_text (if s then unswap_ts b else b) @ drop 36 (result out),
                      out_length := 36\<rparr>)"
    by (rule r(1))
  show "returned (bin_to_uuid a out) = Some (uuid_text (if s then unswap_ts b else b))"
    by (rule r(2))
  show "length (uuid_text (if s then unswap_ts b else b)) = 36"
    by (rule uuid_text_props(1) [OF r(3)])
  show "uuid_form_dashed (uuid_text (if s then unswap_ts b else b))"
    by (rule uuid_text_props(2) [OF r(3)])
  show "list_all (\<lambda>c. to_lower c = c) (uuid_text (if s then unswap_ts b else b))"
    by (rule uuid_text_props(3) [OF r(3)])
qed

subsection \<open>One function after the other\<close>

lemma decode_then_encode:
  assumes "args a \<noteq> []" "args a ! 0 = Some t" "valid_uuid_text t" "swap_flag a = Inr s"
    "16 \<le> length (result out)"
    "args a' \<noteq> []" "args a' ! 0 = returned (uuid_to_bin a out)" "swap_flag a' = Inr s'"
    "36 \<le> length (result out')"
  shows "returned (bin_to_uuid a' out') =
           Some (uuid_text (if s' then unswap_ts (if s then swap_ts (uuid_bytes t) else uuid_bytes t)
                            else (if s then swap_ts (uuid_bytes t) else uuid_bytes t)))"
proof -
  note d = uuid_to_bin_valid [OF assms(1,2,3,4,5)]
  have b: "args a' ! 0 = Some (if s then swap_ts (uuid_bytes t) else uuid_bytes t)"
    using assms(7) d(2) by simp
  show ?thesis
    by (rule bin_to_uuid_16(2) [OF assms(6) b d(3) assms(8,9)])
qed

lemma encode_then_decode:
  assumes "args a \<noteq> []" "args a ! 0 = Some b" "length b = 16" "swap_flag a = Inr s"
    "36 \<le> length (result out)"
    "args a' \<noteq> []" "args a' ! 0 = returned (bin_to_uuid a out)" "swap_flag a' = Inr s"
    "16 \<le> length (result out')"
  shows "returned (uuid_to_bin a' out') = Some b"
proof -
  note e = bin_to_uuid_16 [OF assms(1,2,3,4,5)]
  let ?d = "if s then unswap_ts b else b"
  have t: "args a' ! 0 = Some (uuid_text ?d)"
    using assms(7) e(2) by simp
  have v: "valid_uuid_text (uuid_text ?d)"
    using uuid_text_props(2) [OF e(3)] by (simp add: valid_uuid_text_def)
  have "returned (uuid_to_bin a' out') =
      Some (if s then swap_ts (uuid_bytes (uuid_text ?d)) else uuid_bytes (uuid_text ?d))"
    by (rule uuid_to_bin_valid(2) [OF assms(6) t v assms(8,9)])
  also have "uuid_bytes (uuid_text ?d) = ?d"
    by (rule uuid_text_props(4) [OF e(3)])
  finally show ?thesis using assms(3) by (simp add: swap_ts_props)
qed

lemma same_flags:
  assumes "args a \<noteq> []" "args a ! 0 = Some t" "valid_uuid_text t" "swap_flag a = Inr s"
    "16 \<le> length (result out)"
    "args a' \<noteq> []" "args a' ! 0 = returned (uuid_to_bin a out)" "swap_flag a' = Inr s"
    "36 \<le> length (result out')"
  shows "returned (bin_to_uuid a' out') = Some (canonical t)"
proof -
  have l: "length (uuid_bytes t) = 16" by (rule text_of_bytes(2) [OF assms(3)])
  have "returned (bin_to_uuid a' out') = Some (uuid_text (uuid_bytes t))"
    using decode_then_encode [OF assms] l by (simp add: swap_ts_props)
  then show ?thesis by (simp add: text_of_bytes(1) [OF assms(3)])
qed

lemma flags_differ_roundtrip:
  assumes "args a \<noteq> []" "args a ! 0 = Some t" "valid_uuid_text t" "swap_flag a = Inr True"
    "16 \<le> length (result out)"
    "args a' \<noteq> []" "args a' ! 0 = returned (uuid_to_bin a out)" "swap_flag a' = Inr False"
    "36 \<le> length (result out')"
  shows "returned (bin_to_uuid a' out') = Some (uuid_text (swap_ts (uuid_bytes t)))"
    and "returned (bin_to_uuid a' out') = Some (canonical t) \<longleftrightarrow>
      uuid_bytes t ! 0 = uuid_bytes t ! 2 \<and> uuid_bytes t ! 2 = uuid_bytes t ! 4 \<and>
      uuid_bytes t ! 4 = uuid_bytes t ! 6 \<and> uuid_bytes t ! 1 = uuid_bytes t ! 3 \<and>
      uuid_bytes t ! 3 = uuid_bytes t ! 5 \<and> uuid_bytes t ! 5 = uuid_bytes t ! 7"
proof -
  have l: "length (uuid_bytes t) = 16" by (rule text_of_bytes(2) [OF assms(3)])
  have ls: "length (swap_ts (uuid_bytes t)) = 16" by (rule swap_ts_props(1) [OF l])
  show r: "returned (bin_to_uuid a' out') = Some (uuid_text (swap_ts (uuid_bytes t)))"
    using decode_then_encode [OF assms] by simp
  have "uuid_text (swap_ts (uuid_bytes t)) = canonical t \<longleftrightarrow> swap_ts (uuid_bytes t) = uuid_bytes t"
    using uuid_text_inject [OF ls l] text_of_bytes(1) [OF assms(3)] by auto
  then show "returned (bin_to_uuid a' out') = Some (canonical t) \<longleftrightarrow>
      uuid_bytes t ! 0 = uuid_bytes t ! 2 \<and> uuid_bytes t ! 2 = uuid_bytes t ! 4 \<and>
      uuid_bytes t ! 4 = uuid_bytes t ! 6 \<and> uuid_bytes t ! 1 = uuid_bytes t ! 3 \<and>
      uuid_bytes t ! 3 = uuid_bytes t ! 5 \<and> uuid_bytes t ! 5 = uuid_bytes t ! 7"
    unfolding r using swap_ts_fixed [OF l] by simp
qed

subsection \<open>Worked examples\<close>

lemma example_texts_valid:
  "valid_uuid_text (map ch ''6ccd780c-baba-1026-9564-0040f4311e29'')"
  "valid_uuid_text (map ch ''{6CCD780C-BABA-1026-9564-0040F4311E29}'')"
  "valid_uuid_text (map ch ''6ccd780cbaba102695640040f4311e29'')"
  "valid_uuid_text (map ch ''00000000-0000-0000-0000-000000000000'')"
  "\<not> valid_uuid_text (map ch ''invalid'')"
  by (simp_all add: valid_uuid_text_def uuid_form_plain_def uuid_form_dashed_def
      uuid_form_braced_def is_hex_digit_def dash_def ch_def)

lemma example_canonical:
  "canonical (map ch ''{6CCD780C-BABA-1026-9564-0040F4311E29}'') = map ch ''6ccd780c-baba-1026-9564-0040f4311e29''"
  "canonical (map ch ''00000000-0000-0000-0000-000000000000'') = map ch ''00000000-0000-0000-0000-000000000000''"
  by (simp_all add: canonical_def dashed_def to_lower_def is_hex_digit_def dash_def ch_def)

lemma example_bytes:
  "uuid_bytes (map ch ''{6CCD780C-BABA-1026-9564-0040F4311E29}'') = [108, 205, 120, 12, 186, 186, 16, 38, 149, 100, 0, 64, 244, 49, 30, 41]"
  "uuid_bytes (map ch ''6ccd780c-baba-1026-9564-0040f4311e29'') = [108, 205, 120, 12, 186, 186, 16, 38, 149, 100, 0, 64, 244, 49, 30, 41]"
  "uuid_bytes (map ch ''00000000-0000-0000-0000-000000000000'') = [0, 0, 0, 0, 0, 0, 0, 0, 0, 0, 0, 0, 0, 0, 0, 0]"
  by (simp_all add: uuid_bytes_def byte_of_hex_def hex_digit_value_def is_hex_digit_def ch_def)

lemma example_text:
  "uuid_text [108, 205, 120, 12, 186, 186, 16, 38, 149, 100, 0, 64, 244, 49, 30, 41] = map ch ''6ccd780c-baba-1026-9564-0040f4311e29''"
  by (simp add: uuid_text_def dashed_def hex_of_byte_def lower_hex_char_def dash_def ch_def)

lemma example_flags:
  "swap_flag \<lparr>arg_count = 2, arg_type = ty, args = [x, Some [1, 0, 0, 0, 0, 0, 0, 0]]\<rparr> = Inr True"
  "swap_flag \<lparr>arg_count = 2, arg_type = ty, args = [x, Some [0, 0, 0, 0, 0, 0, 0, 0]]\<rparr> = Inr False"
  by (simp_all add: swap_flag_def long_long_at_def word_rcat_def)

section \<open>The claims\<close>

text \<open>
  C1.  For every 16-byte buffer \<open>x\<close>, \<open>unswap_ts\<close> undoes \<open>swap_ts\<close> and
  \<open>swap_ts\<close> undoes \<open>unswap_ts\<close>.  Neither transform writes bytes 8 to 15
  (they come out as they went in) and neither reads them (bytes 0 to 7 of the
  result are the same whatever bytes 8 to 15 of the input are).
\<close>

theorem swap_ts_unswap_ts_inverse:
  assumes "length x = 16"
  shows "unswap_ts (swap_ts x) = x \<and> swap_ts (unswap_ts x) = x \<and>
         drop 8 (swap_ts x) = drop 8 x \<and> drop 8 (unswap_ts x) = drop 8 x \<and>
         (\<forall>y. length y = 8 \<longrightarrow>
            take 8 (swap_ts (take 8 x @ y)) = take 8 (swap_ts x) \<and>
            take 8 (unswap_ts (take 8 x @ y)) = take 8 (unswap_ts x))"
  using assms by (simp add: swap_ts_props swap_ts_first8 swap_both_layouts(3,4))

theorem swap_ts_unswap_ts_inverse_witness:
  "length [1, 2, 3, 4, 5, 6, 7, 8, 9, 10, 11, 12, 13, 14, 15, 16 :: byte] = 16 \<and>
   length [0, 0, 0, 0, 0, 0, 0, 0 :: byte] = 8 \<and>
   unswap_ts (swap_ts [1, 2, 3, 4, 5, 6, 7, 8, 9, 10, 11, 12, 13, 14, 15, 16]) = [1, 2, 3, 4, 5, 6, 7, 8, 9, 10, 11, 12, 13, 14, 15, 16] \<and>
   swap_ts (unswap_ts [1, 2, 3, 4, 5, 6, 7, 8, 9, 10, 11, 12, 13, 14, 15, 16]) = [1, 2, 3, 4, 5, 6, 7, 8, 9, 10, 11, 12, 13, 14, 15, 16] \<and>
   drop 8 (swap_ts [1, 2, 3, 4, 5, 6, 7, 8, 9, 10, 11, 12, 13, 14, 15, 16]) = drop 8 [1, 2, 3, 4, 5, 6, 7, 8, 9, 10, 11, 12, 13, 14, 15, 16] \<and>
   drop 8 (unswap_ts [1, 2, 3, 4, 5, 6, 7, 8, 9, 10, 11, 12, 13, 14, 15, 16]) = drop 8 [1, 2, 3, 4, 5, 6, 7, 8, 9, 10, 11, 12, 13, 14, 15, 16] \<and>
   take 8 (swap_ts (take 8 [1, 2, 3, 4, 5, 6, 7, 8, 9, 10, 11, 12, 13, 14, 15, 16] @ [0, 0, 0, 0, 0, 0, 0, 0]))
     = take 8 (swap_ts [1, 2, 3, 4, 5, 6, 7, 8, 9, 10, 11, 12, 13, 14, 15, 16]) \<and>
   take 8 (unswap_ts (take 8 [1, 2, 3, 4, 5, 6, 7, 8, 9, 10, 11, 12, 13, 14, 15, 16] @ [0, 0, 0, 0, 0, 0, 0, 0]))
     = take 8 (unswap_ts [1, 2, 3, 4, 5, 6, 7, 8, 9, 10, 11, 12, 13, 14, 15, 16])"
proof -
  have l: "length [1, 2, 3, 4, 5, 6, 7, 8, 9, 10, 11, 12, 13, 14, 15, 16 :: byte] = 16"
    by simp
  have m: "length [0, 0, 0, 0, 0, 0, 0, 0 :: byte] = 8"
    by simp
  from swap_ts_unswap_ts_inverse [OF l] l m show ?thesis
    by blast
qed

text \<open>
  C2.  Let \<open>t\<close> be a text valid in any of the three forms and let a call of
  \<open>uuid_to_bin\<close> on \<open>t\<close> read the swap flag \<open>s\<close>.  Then \<open>bin_to_uuid\<close>,
  called on what that call returned and reading the same flag \<open>s\<close>, returns
  the canonical lowercase, dashed, unbraced normalisation of \<open>t\<close>.  (The
  result buffers hold at least 16 and 36 bytes.)
\<close>

theorem text_roundtrip:
  assumes "args a \<noteq> []" "args a ! 0 = Some t" "valid_uuid_text t" "swap_flag a = Inr s"
    "16 \<le> length (result out)"
    "args a' \<noteq> []" "args a' ! 0 = returned (uuid_to_bin a out)" "swap_flag a' = Inr s"
    "36 \<le> length (result out')"
  shows "returned (bin_to_uuid a' out') = Some (canonical t)"
  using assms by (rule same_flags)

theorem text_roundtrip_witness:
  "args \<lparr>arg_count = 2, arg_type = [STRING_RESULT, INT_RESULT], args = [Some (map ch ''{6CCD780C-BABA-1026-9564-0040F4311E29}''), Some [1, 0, 0, 0, 0, 0, 0, 0]]\<rparr> \<noteq> [] \<and>
   args \<lparr>arg_count = 2, arg_type = [STRING_RESULT, INT_RESULT], args = [Some (map ch ''{6CCD780C-BABA-1026-9564-0040F4311E29}''), Some [1, 0, 0, 0, 0, 0, 0, 0]]\<rparr> ! 0 = Some (map ch ''{6CCD780C-BABA-1026-9564-0040F4311E29}'') \<and>
   valid_uuid_text (map ch ''{6CCD780C-BABA-1026-9564-0040F4311E29}'') \<and>
   swap_flag \<lparr>arg_count = 2, arg_type = [STRING_RESULT, INT_RESULT], args = [Some (map ch ''{6CCD780C-BABA-1026-9564-0040F4311E29}''), Some [1, 0, 0, 0, 0, 0, 0, 0]]\<rparr> = Inr True \<and>
   16 \<le> length (result \<lparr>result = replicate 255 0, out_length = 0, is_null = 0, is_error = 0\<rparr>) \<and>
   args \<lparr>arg_count = 2, arg_type = [STRING_RESULT, INT_RESULT], args = [returned (uuid_to_bin \<lparr>arg_count = 2, arg_type = [STRING_RESULT, INT_RESULT], args = [Some (map ch ''{6CCD780C-BABA-1026-9564-0040F4311E29}''), Some [1, 0, 0, 0, 0, 0, 0, 0]]\<rparr> \<lparr>result = replicate 255 0, out_length = 0, is_null = 0, is_error = 0\<rparr>), Some [1, 0, 0, 0, 0, 0, 0, 0]]\<rparr> \<noteq> [] \<and>
   args \<lparr>arg_count = 2, arg_type = [STRING_RESULT, INT_RESULT], args = [returned (uuid_to_bin \<lparr>arg_count = 2, arg_type = [STRING_RESULT, INT_RESULT], args = [Some (map ch ''{6CCD780C-BABA-1026-9564-0040F4311E29}''), Some [1, 0, 0, 0, 0, 0, 0, 0]]\<rparr> \<lparr>result = replicate 255 0, out_length = 0, is_null = 0, is_error = 0\<rparr>), Some [1, 0, 0, 0, 0, 0, 0, 0]]\<rparr> ! 0
     = returned (uuid_to_bin \<lparr>arg_count = 2, arg_type = [STRING_RESULT, INT_RESULT], args = [Some (map ch ''{6CCD780C-BABA-1026-9564-0040F4311E29}''), Some [1, 0, 0, 0, 0, 0, 0, 0]]\<rparr> \<lparr>result = replicate 255 0, out_length = 0, is_null = 0, is_error = 0\<rparr>) \<and>
   swap_flag \<lparr>arg_count = 2, arg_type = [STRING_RESULT, INT_RESULT], args = [returned (uuid_to_bin \<lparr>arg_count = 2, arg_type = [STRING_RESULT, INT_RESULT], args = [Some (map ch ''{6CCD780C-BABA-1026-9564-0040F4311E29}''), Some [1, 0, 0, 0, 0, 0, 0, 0]]\<rparr> \<lparr>result = replicate 255 0, out_length = 0, is_null = 0, is_error = 0\<rparr>), Some [1, 0, 0, 0, 0, 0, 0, 0]]\<rparr> = Inr True \<and>
   36 \<le> length (result \<lparr>result = replicate 255 0, out_length = 0, is_null = 0, is_error = 0\<rparr>) \<and>
   returned (bin_to_uuid \<lparr>arg_count = 2, arg_type = [STRING_RESULT, INT_RESULT], args = [returned (uuid_to_bin \<lparr>arg_count = 2, arg_type = [STRING_RESULT, INT_RESULT], args = [Some (map ch ''{6CCD780C-BABA-1026-9564-0040F4311E29}''), Some [1, 0, 0, 0, 0, 0, 0, 0]]\<rparr> \<lparr>result = replicate 255 0, out_length = 0, is_null = 0, is_error = 0\<rparr>), Some [1, 0, 0, 0, 0, 0, 0, 0]]\<rparr> \<lparr>result = replicate 255 0, out_length = 0, is_null = 0, is_error = 0\<rparr>)
     = Some (map ch ''6ccd780c-baba-1026-9564-0040f4311e29'')"
proof -
  have h: "args \<lparr>arg_count = 2, arg_type = [STRING_RESULT, INT_RESULT], args = [Some (map ch ''{6CCD780C-BABA-1026-9564-0040F4311E29}''), Some [1, 0, 0, 0, 0, 0, 0, 0]]\<rparr> \<noteq> []"
    "args \<lparr>arg_count = 2, arg_type = [STRING_RESULT, INT_RESULT], args = [Some (map ch ''{6CCD780C-BABA-1026-9564-0040F4311E29}''), Some [1, 0, 0, 0, 0, 0, 0, 0]]\<rparr> ! 0 = Some (map ch ''{6CCD780C-BABA-1026-9564-0040F4311E29}'')"
    "valid_uuid_text (map ch ''{6CCD780C-BABA-1026-9564-0040F4311E29}'')"
    "swap_flag \<lparr>arg_count = 2, arg_type = [STRING_RESULT, INT_RESULT], args = [Some (map ch ''{6CCD780C-BABA-1026-9564-0040F4311E29}''), Some [1, 0, 0, 0, 0, 0, 0, 0]]\<rparr> = Inr True"
    "16 \<le> length (result \<lparr>result = replicate 255 0, out_length = 0, is_null = 0, is_error = 0\<rparr>)"
    "args \<lparr>arg_count = 2, arg_type = [STRING_RESULT, INT_RESULT], args = [returned (uuid_to_bin \<lparr>arg_count = 2, arg_type = [STRING_RESULT, INT_RESULT], args = [Some (map ch ''{6CCD780C-BABA-1026-9564-0040F4311E29}''), Some [1, 0, 0, 0, 0, 0, 0, 0]]\<rparr> \<lparr>result = replicate 255 0, out_length = 0, is_null = 0, is_error = 0\<rparr>), Some [1, 0, 0, 0, 0, 0, 0, 0]]\<rparr> \<noteq> []"
    "args \<lparr>arg_count = 2, arg_type = [STRING_RESULT, INT_RESULT], args = [returned (uuid_to_bin \<lparr>arg_count = 2, arg_type = [STRING_RESULT, INT_RESULT], args = [Some (map ch ''{6CCD780C-BABA-1026-9564-0040F4311E29}''), Some [1, 0, 0, 0, 0, 0, 0, 0]]\<rparr> \<lparr>result = replicate 255 0, out_length = 0, is_null = 0, is_error = 0\<rparr>), Some [1, 0, 0, 0, 0, 0, 0, 0]]\<rparr> ! 0
       = returned (uuid_to_bin \<lparr>arg_count = 2, arg_type = [STRING_RESULT, INT_RESULT], args = [Some (map ch ''{6CCD780C-BABA-1026-9564-0040F4311E29}''), Some [1, 0, 0, 0, 0, 0, 0, 0]]\<rparr> \<lparr>result = replicate 255 0, out_length = 0, is_null = 0, is_error = 0\<rparr>)"
    "swap_flag \<lparr>arg_count = 2, arg_type = [STRING_RESULT, INT_RESULT], args = [returned (uuid_to_bin \<lparr>arg_count = 2, arg_type = [STRING_RESULT, INT_RESULT], args = [Some (map ch ''{6CCD780C-BABA-1026-9564-0040F4311E29}''), Some [1, 0, 0, 0, 0, 0, 0, 0]]\<rparr> \<lparr>result = replicate 255 0, out_length = 0, is_null = 0, is_error = 0\<rparr>), Some [1, 0, 0, 0, 0, 0, 0, 0]]\<rparr> = Inr True"
    "36 \<le> length (result \<lparr>result = replicate 255 0, out_length = 0, is_null = 0, is_error = 0\<rparr>)"
    by (simp_all del: list.map add: example_flags example_texts_valid)
  from text_roundtrip [OF h]
  have "returned (bin_to_uuid \<lparr>arg_count = 2, arg_type = [STRING_RESULT, INT_RESULT], args = [returned (uuid_to_bin \<lparr>arg_count = 2, arg_type = [STRING_RESULT, INT_RESULT], args = [Some (map ch ''{6CCD780C-BABA-1026-9564-0040F4311E29}''), Some [1, 0, 0, 0, 0, 0, 0, 0]]\<rparr> \<lparr>result = replicate 255 0, out_length = 0, is_null = 0, is_error = 0\<rparr>), Some [1, 0, 0, 0, 0, 0, 0, 0]]\<rparr> \<lparr>result = replicate 255 0, out_length = 0, is_null = 0, is_error = 0\<rparr>)
      = Some (map ch ''6ccd780c-baba-1026-9564-0040f4311e29'')"
    by (simp only: example_canonical)
  with h show ?thesis
    by blast
qed

text \<open>
  C3.  Let \<open>t\<close> be a valid text, decoded by a call of \<open>uuid_to_bin\<close> that
  reads the swap flag true, and let \<open>bin_to_uuid\<close> be called on the result
  with the swap flag false.  The text returned is that of the swapped bytes,
  \<open>uuid_text (swap_ts (uuid_bytes t))\<close>.  It is equal to the canonical
  normalisation of \<open>t\<close> exactly when \<open>swap_ts\<close> leaves the bytes of \<open>t\<close>
  as they are, that is, when bytes 0, 2, 4, 6 are equal and bytes 1, 3, 5, 7 are
  equal; for every other valid text it differs from the canonical
  normalisation.  The nil UUID is a text for which the two are equal.
\<close>

theorem mismatched_flags_roundtrip:
  assumes "args a \<noteq> []" "args a ! 0 = Some t" "valid_uuid_text t" "swap_flag a = Inr True"
    "16 \<le> length (result out)"
    "args a' \<noteq> []" "args a' ! 0 = returned (uuid_to_bin a out)" "swap_flag a' = Inr False"
    "36 \<le> length (result out')"
  shows "returned (bin_to_uuid a' out') = Some (uuid_text (swap_ts (uuid_bytes t))) \<and>
    (returned (bin_to_uuid a' out') = Some (canonical t) \<longleftrightarrow>
       uuid_bytes t ! 0 = uuid_bytes t ! 2 \<and> uuid_bytes t ! 2 = uuid_bytes t ! 4 \<and>
       uuid_bytes t ! 4 = uuid_bytes t ! 6 \<and> uuid_bytes t ! 1 = uuid_bytes t ! 3 \<and>
       uuid_bytes t ! 3 = uuid_bytes t ! 5 \<and> uuid_bytes t ! 5 = uuid_bytes t ! 7)"
  using flags_differ_roundtrip [OF assms] by blast

theorem mismatched_flags_roundtrip_witness:
  "args \<lparr>arg_count = 2, arg_type = [STRING_RESULT, INT_RESULT], args = [Some (map ch ''6ccd780c-baba-1026-9564-0040f4311e29''), Some [1, 0, 0, 0, 0, 0, 0, 0]]\<rparr> \<noteq> [] \<and>
   args \<lparr>arg_count = 2, arg_type = [STRING_RESULT, INT_RESULT], args = [Some (map ch ''6ccd780c-baba-1026-9564-0040f4311e29''), Some [1, 0, 0, 0, 0, 0, 0, 0]]\<rparr> ! 0 = Some (map ch ''6ccd780c-baba-1026-9564-0040f4311e29'') \<and>
   valid_uuid_text (map ch ''6ccd780c-baba-1026-9564-0040f4311e29'') \<and>
   swap_flag \<lparr>arg_count = 2, arg_type = [STRING_RESULT, INT_RESULT], args = [Some (map ch ''6ccd780c-baba-1026-9564-0040f4311e29''), Some [1, 0, 0, 0, 0, 0, 0, 0]]\<rparr> = Inr True \<and>
   16 \<le> length (result \<lparr>result = replicate 255 0, out_length = 0, is_null = 0, is_error = 0\<rparr>) \<and>
   args \<lparr>arg_count = 2, arg_type = [STRING_RESULT, INT_RESULT], args = [returned (uuid_to_bin \<lparr>arg_count = 2, arg_type = [STRING_RESULT, INT_RESULT], args = [Some (map ch ''6ccd780c-baba-1026-9564-0040f4311e29''), Some [1, 0, 0, 0, 0, 0, 0, 0]]\<rparr> \<lparr>result = replicate 255 0, out_length = 0, is_null = 0, is_error = 0\<rparr>), Some [0, 0, 0, 0, 0, 0, 0, 0]]\<rparr> \<noteq> [] \<and>
   args \<lparr>arg_count = 2, arg_type = [STRING_RESULT, INT_RESULT], args = [returned (uuid_to_bin \<lparr>arg_count = 2, arg_type = [STRING_RESULT, INT_RESULT], args = [Some (map ch ''6ccd780c-baba-1026-9564-0040f4311e29''), Some [1, 0, 0, 0, 0, 0, 0, 0]]\<rparr> \<lparr>result = replicate 255 0, out_length = 0, is_null = 0, is_error = 0\<rparr>), Some [0, 0, 0, 0, 0, 0, 0, 0]]\<rparr> ! 0
     = returned (uuid_to_bin \<lparr>arg_count = 2, arg_type = [STRING_RESULT, INT_RESULT], args = [Some (map ch ''6ccd780c-baba-1026-9564-0040f4311e29''), Some [1, 0, 0, 0, 0, 0, 0, 0]]\<rparr> \<lparr>result = replicate 255 0, out_length = 0, is_null = 0, is_error = 0\<rparr>) \<and>
   swap_flag \<lparr>arg_count = 2, arg_type = [STRING_RESULT, INT_RESULT], args = [returned (uuid_to_bin \<lparr>arg_count = 2, arg_type = [STRING_RESULT, INT_RESULT], args = [Some (map ch ''6ccd780c-baba-1026-9564-0040f4311e29''), Some [1, 0, 0, 0, 0, 0, 0, 0]]\<rparr> \<lparr>result = replicate 255 0, out_length = 0, is_null = 0, is_error = 0\<rparr>), Some [0, 0, 0, 0, 0, 0, 0, 0]]\<rparr> = Inr False \<and>
   36 \<le> length (result \<lparr>result = replicate 255 0, out_length = 0, is_null = 0, is_error = 0\<rparr>) \<and>
   returned (bin_to_uuid \<lparr>arg_count = 2, arg_type = [STRING_RESULT, INT_RESULT], args = [returned (uuid_to_bin \<lparr>arg_count = 2, arg_type = [STRING_RESULT, INT_RESULT], args = [Some (map ch ''6ccd780c-baba-1026-9564-0040f4311e29''), Some [1, 0, 0, 0, 0, 0, 0, 0]]\<rparr> \<lparr>result = replicate 255 0, out_length = 0, is_null = 0, is_error = 0\<rparr>), Some [0, 0, 0, 0, 0, 0, 0, 0]]\<rparr> \<lparr>result = replicate 255 0, out_length = 0, is_null = 0, is_error = 0\<rparr>)
     \<noteq> Some (canonical (map ch ''6ccd780c-baba-1026-9564-0040f4311e29''))"
proof -
  have h: "args \<lparr>arg_count = 2, arg_type = [STRING_RESULT, INT_RESULT], args = [Some (map ch ''6ccd780c-baba-1026-9564-0040f4311e29''), Some [1, 0, 0, 0, 0, 0, 0, 0]]\<rparr> \<noteq> []"
    "args \<lparr>arg_count = 2, arg_type = [STRING_RESULT, INT_RESULT], args = [Some (map ch ''6ccd780c-baba-1026-9564-0040f4311e29''), Some [1, 0, 0, 0, 0, 0, 0, 0]]\<rparr> ! 0 = Some (map ch ''6ccd780c-baba-1026-9564-0040f4311e29'')"
    "valid_uuid_text (map ch ''6ccd780c-baba-1026-9564-0040f4311e29'')"
    "swap_flag \<lparr>arg_count = 2, arg_type = [STRING_RESULT, INT_RESULT], args = [Some (map ch ''6ccd780c-baba-1026-9564-0040f4311e29''), Some [1, 0, 0, 0, 0, 0, 0, 0]]\<rparr> = Inr True"
    "16 \<le> length (result \<lparr>result = replicate 255 0, out_length = 0, is_null = 0, is_error = 0\<rparr>)"
    "args \<lparr>arg_count = 2, arg_type = [STRING_RESULT, INT_RESULT], args = [returned (uuid_to_bin \<lparr>arg_count = 2, arg_type = [STRING_RESULT, INT_RESULT], args = [Some (map ch ''6ccd780c-baba-1026-9564-0040f4311e29''), Some [1, 0, 0, 0, 0, 0, 0, 0]]\<rparr> \<lparr>result = replicate 255 0, out_length = 0, is_null = 0, is_error = 0\<rparr>), Some [0, 0, 0, 0, 0, 0, 0, 0]]\<rparr> \<noteq> []"
    "args \<lparr>arg_count = 2, arg_type = [STRING_RESULT, INT_RESULT], args = [returned (uuid_to_bin \<lparr>arg_count = 2, arg_type = [STRING_RESULT, INT_RESULT], args = [Some (map ch ''6ccd780c-baba-1026-9564-0040f4311e29''), Some [1, 0, 0, 0, 0, 0, 0, 0]]\<rparr> \<lparr>result = replicate 255 0, out_length = 0, is_null = 0, is_error = 0\<rparr>), Some [0, 0, 0, 0, 0, 0, 0, 0]]\<rparr> ! 0
       = returned (uuid_to_bin \<lparr>arg_count = 2, arg_type = [STRING_RESULT, INT_RESULT], args = [Some (map ch ''6ccd780c-baba-1026-9564-0040f4311e29''), Some [1, 0, 0, 0, 0, 0, 0, 0]]\<rparr> \<lparr>result = replicate 255 0, out_length = 0, is_null = 0, is_error = 0\<rparr>)"
    "swap_flag \<lparr>arg_count = 2, arg_type = [STRING_RESULT, INT_RESULT], args = [returned (uuid_to_bin \<lparr>arg_count = 2, arg_type = [STRING_RESULT, INT_RESULT], args = [Some (map ch ''6ccd780c-baba-1026-9564-0040f4311e29''), Some [1, 0, 0, 0, 0, 0, 0, 0]]\<rparr> \<lparr>result = replicate 255 0, out_length = 0, is_null = 0, is_error = 0\<rparr>), Some [0, 0, 0, 0, 0, 0, 0, 0]]\<rparr> = Inr False"
    "36 \<le> length (result \<lparr>result = replicate 255 0, out_length = 0, is_null = 0, is_error = 0\<rparr>)"
    by (simp_all del: list.map add: example_flags example_texts_valid)
  have "uuid_bytes (map ch ''6ccd780c-baba-1026-9564-0040f4311e29'') ! 0 \<noteq> uuid_bytes (map ch ''6ccd780c-baba-1026-9564-0040f4311e29'') ! 2"
    by (simp only: example_bytes) simp
  with mismatched_flags_roundtrip [OF h]
  have "returned (bin_to_uuid \<lparr>arg_count = 2, arg_type = [STRING_RESULT, INT_RESULT], args = [returned (uuid_to_bin \<lparr>arg_count = 2, arg_type = [STRING_RESULT, INT_RESULT], args = [Some (map ch ''6ccd780c-baba-1026-9564-0040f4311e29''), Some [1, 0, 0, 0, 0, 0, 0, 0]]\<rparr> \<lparr>result = replicate 255 0, out_length = 0, is_null = 0, is_error = 0\<rparr>), Some [0, 0, 0, 0, 0, 0, 0, 0]]\<rparr> \<lparr>result = replicate 255 0, out_length = 0, is_null = 0, is_error = 0\<rparr>)
      \<noteq> Some (canonical (map ch ''6ccd780c-baba-1026-9564-0040f4311e29''))"
    by blast
  with h show ?thesis
    by blast
qed

theorem mismatched_flags_counterexample:
  "valid_uuid_text (map ch ''00000000-0000-0000-0000-000000000000'') \<and>
   swap_flag \<lparr>arg_count = 2, arg_type = [STRING_RESULT, INT_RESULT], args = [Some (map ch ''00000000-0000-0000-0000-000000000000''), Some [1, 0, 0, 0, 0, 0, 0, 0]]\<rparr> = Inr True \<and>
   swap_flag \<lparr>arg_count = 2, arg_type = [STRING_RESULT, INT_RESULT], args = [returned (uuid_to_bin \<lparr>arg_count = 2, arg_type = [STRING_RESULT, INT_RESULT], args = [Some (map ch ''00000000-0000-0000-0000-000000000000''), Some [1, 0, 0, 0, 0, 0, 0, 0]]\<rparr> \<lparr>result = replicate 255 0, out_length = 0, is_null = 0, is_error = 0\<rparr>), Some [0, 0, 0, 0, 0, 0, 0, 0]]\<rparr> = Inr False \<and>
   returned (bin_to_uuid \<lparr>arg_count = 2, arg_type = [STRING_RESULT, INT_RESULT], args = [returned (uuid_to_bin \<lparr>arg_count = 2, arg_type = [STRING_RESULT, INT_RESULT], args = [Some (map ch ''00000000-0000-0000-0000-000000000000''), Some [1, 0, 0, 0, 0, 0, 0, 0]]\<rparr> \<lparr>result = replicate 255 0, out_length = 0, is_null = 0, is_error = 0\<rparr>), Some [0, 0, 0, 0, 0, 0, 0, 0]]\<rparr> \<lparr>result = replicate 255 0, out_length = 0, is_null = 0, is_error = 0\<rparr>)
     = Some (canonical (map ch ''00000000-0000-0000-0000-000000000000''))"
proof -
  have h: "args \<lparr>arg_count = 2, arg_type = [STRING_RESULT, INT_RESULT], args = [Some (map ch ''00000000-0000-0000-0000-000000000000''), Some [1, 0, 0, 0, 0, 0, 0, 0]]\<rparr> \<noteq> []"
    "args \<lparr>arg_count = 2, arg_type = [STRING_RESULT, INT_RESULT], args = [Some (map ch ''00000000-0000-0000-0000-000000000000''), Some [1, 0, 0, 0, 0, 0, 0, 0]]\<rparr> ! 0 = Some (map ch ''00000000-0000-0000-0000-000000000000'')"
    "valid_uuid_text (map ch ''00000000-0000-0000-0000-000000000000'')"
    "swap_flag \<lparr>arg_count = 2, arg_type = [STRING_RESULT, INT_RESULT], args = [Some (map ch ''00000000-0000-0000-0000-000000000000''), Some [1, 0, 0, 0, 0, 0, 0, 0]]\<rparr> = Inr True"
    "16 \<le> length (result \<lparr>result = replicate 255 0, out_length = 0, is_null = 0, is_error = 0\<rparr>)"
    "args \<lparr>arg_count = 2, arg_type = [STRING_RESULT, INT_RESULT], args = [returned (uuid_to_bin \<lparr>arg_count = 2, arg_type = [STRING_RESULT, INT_RESULT], args = [Some (map ch ''00000000-0000-0000-0000-000000000000''), Some [1, 0, 0, 0, 0, 0, 0, 0]]\<rparr> \<lparr>result = replicate 255 0, out_length = 0, is_null = 0, is_error = 0\<rparr>), Some [0, 0, 0, 0, 0, 0, 0, 0]]\<rparr> \<noteq> []"
    "args \<lparr>arg_count = 2, arg_type = [STRING_RESULT, INT_RESULT], args = [returned (uuid_to_bin \<lparr>arg_count = 2, arg_type = [STRING_RESULT, INT_RESULT], args = [Some (map ch ''00000000-0000-0000-0000-000000000000''), Some [1, 0, 0, 0, 0, 0, 0, 0]]\<rparr> \<lparr>result = replicate 255 0, out_length = 0, is_null = 0, is_error = 0\<rparr>), Some [0, 0, 0, 0, 0, 0, 0, 0]]\<rparr> ! 0
       = returned (uuid_to_bin \<lparr>arg_count = 2, arg_type = [STRING_RESULT, INT_RESULT], args = [Some (map ch ''00000000-0000-0000-0000-000000000000''), Some [1, 0, 0, 0, 0, 0, 0, 0]]\<rparr> \<lparr>result = replicate 255 0, out_length = 0, is_null = 0, is_error = 0\<rparr>)"
    "swap_flag \<lparr>arg_count = 2, arg_type = [STRING_RESULT, INT_RESULT], args = [returned (uuid_to_bin \<lparr>arg_count = 2, arg_type = [STRING_RESULT, INT_RESULT], args = [Some (map ch ''00000000-0000-0000-0000-000000000000''), Some [1, 0, 0, 0, 0, 0, 0, 0]]\<rparr> \<lparr>result = replicate 255 0, out_length = 0, is_null = 0, is_error = 0\<rparr>), Some [0, 0, 0, 0, 0, 0, 0, 0]]\<rparr> = Inr False"
    "36 \<le> length (result \<lparr>result = replicate 255 0, out_length = 0, is_null = 0, is_error = 0\<rparr>)"
    by (simp_all del: list.map add: example_flags example_texts_valid)
  have "uuid_bytes (map ch ''00000000-0000-0000-0000-000000000000'') ! 0 = uuid_bytes (map ch ''00000000-0000-0000-0000-000000000000'') ! 2 \<and>
      uuid_bytes (map ch ''00000000-0000-0000-0000-000000000000'') ! 2 = uuid_bytes (map ch ''00000000-0000-0000-0000-000000000000'') ! 4 \<and>
      uuid_bytes (map ch ''00000000-0000-0000-0000-000000000000'') ! 4 = uuid_bytes (map ch ''00000000-0000-0000-0000-000000000000'') ! 6 \<and>
      uuid_bytes (map ch ''00000000-0000-0000-0000-000000000000'') ! 1 = uuid_bytes (map ch ''00000000-0000-0000-0000-000000000000'') ! 3 \<and>
      uuid_bytes (map ch ''00000000-0000-0000-0000-000000000000'') ! 3 = uuid_bytes (map ch ''00000000-0000-0000-0000-000000000000'') ! 5 \<and>
      uuid_bytes (map ch ''00000000-0000-0000-0000-000000000000'') ! 5 = uuid_bytes (map ch ''00000000-0000-0000-0000-000000000000'') ! 7"
    by (simp only: example_bytes) simp
  with flags_differ_roundtrip(2) [OF h]
  have "returned (bin_to_uuid \<lparr>arg_count = 2, arg_type = [STRING_RESULT, INT_RESULT], args = [returned (uuid_to_bin \<lparr>arg_count = 2, arg_type = [STRING_RESULT, INT_RESULT], args = [Some (map ch ''00000000-0000-0000-0000-000000000000''), Some [1, 0, 0, 0, 0, 0, 0, 0]]\<rparr> \<lparr>result = replicate 255 0, out_length = 0, is_null = 0, is_error = 0\<rparr>), Some [0, 0, 0, 0, 0, 0, 0, 0]]\<rparr> \<lparr>result = replicate 255 0, out_length = 0, is_null = 0, is_error = 0\<rparr>)
      = Some (canonical (map ch ''00000000-0000-0000-0000-000000000000''))"
    by blast
  with h show ?thesis
    by blast
qed

text \<open>
  C4.  \<open>is_uuid\<close>, called with \<open>*is_null = 0\<close>: for an absent argument
  it sets \<open>*is_null\<close> and returns 0 (null), and this is the only case in
  which \<open>*is_null\<close> is set; for a present argument of fewer than \<open>2^32\<close>
  bytes (every value the server can pass) it returns 1 exactly when the
  argument is text-typed and in one of the three accepted forms, and 0 for every
  other string and for input that is not text-typed.
\<close>

theorem is_uuid_spec:
  assumes "args a \<noteq> []"
  shows "(args a ! 0 = None \<longrightarrow> is_uuid a 0 = (0, 1)) \<and>
         (snd (is_uuid a 0) = 1 \<longleftrightarrow> args a ! 0 = None) \<and>
         (\<forall>t. args a ! 0 = Some t \<and> length t < 2 ^ 32 \<longrightarrow>
            is_uuid a 0 =
              (if arg_type a ! 0 = STRING_RESULT \<and> valid_uuid_text t then 1 else 0, 0))"
proof (intro conjI allI impI)
  show "is_uuid a 0 = (0, 1)" if "args a ! 0 = None"
    using that by (rule is_uuid_absent)
  show "snd (is_uuid a 0) = 1 \<longleftrightarrow> args a ! 0 = None"
    by (cases "args a ! 0") (simp_all add: is_uuid_def split_def Let_def)
  show "is_uuid a 0 =
      (if arg_type a ! 0 = STRING_RESULT \<and> valid_uuid_text t then 1 else 0, 0)"
    if "args a ! 0 = Some t \<and> length t < 2 ^ 32" for t
    using that is_uuid_present [OF assms, of t 0] by simp
qed

theorem is_uuid_spec_witness:
  "args \<lparr>arg_count = 1, arg_type = [STRING_RESULT], args = [Some (map ch ''{6CCD780C-BABA-1026-9564-0040F4311E29}'')]\<rparr> \<noteq> [] \<and>
   args \<lparr>arg_count = 1, arg_type = [STRING_RESULT], args = [Some (map ch ''{6CCD780C-BABA-1026-9564-0040F4311E29}'')]\<rparr> ! 0 = Some (map ch ''{6CCD780C-BABA-1026-9564-0040F4311E29}'') \<and>
   length (map ch ''{6CCD780C-BABA-1026-9564-0040F4311E29}'') < 2 ^ 32 \<and>
   is_uuid \<lparr>arg_count = 1, arg_type = [STRING_RESULT], args = [Some (map ch ''{6CCD780C-BABA-1026-9564-0040F4311E29}'')]\<rparr> 0 = (1, 0) \<and>
   args \<lparr>arg_count = 1, arg_type = [STRING_RESULT], args = [Some (map ch ''invalid'')]\<rparr> ! 0 = Some (map ch ''invalid'') \<and>
   length (map ch ''invalid'') < 2 ^ 32 \<and>
   is_uuid \<lparr>arg_count = 1, arg_type = [STRING_RESULT], args = [Some (map ch ''invalid'')]\<rparr> 0 = (0, 0) \<and>
   args \<lparr>arg_count = 1, arg_type = [INT_RESULT], args = [Some [123, 0, 0, 0, 0, 0, 0, 0]]\<rparr> ! 0 = Some [123, 0, 0, 0, 0, 0, 0, 0] \<and>
   length [123, 0, 0, 0, 0, 0, 0, 0 :: byte] < 2 ^ 32 \<and>
   is_uuid \<lparr>arg_count = 1, arg_type = [INT_RESULT], args = [Some [123, 0, 0, 0, 0, 0, 0, 0]]\<rparr> 0 = (0, 0) \<and>
   args \<lparr>arg_count = 1, arg_type = [STRING_RESULT], args = [None]\<rparr> ! 0 = None \<and>
   is_uuid \<lparr>arg_count = 1, arg_type = [STRING_RESULT], args = [None]\<rparr> 0 = (0, 1)"
proof -
  have n: "args \<lparr>arg_count = 1, arg_type = [STRING_RESULT], args = [Some (map ch ''{6CCD780C-BABA-1026-9564-0040F4311E29}'')]\<rparr> \<noteq> []"
    "args \<lparr>arg_count = 1, arg_type = [STRING_RESULT], args = [Some (map ch ''invalid'')]\<rparr> \<noteq> []"
    "args \<lparr>arg_count = 1, arg_type = [INT_RESULT], args = [Some [123, 0, 0, 0, 0, 0, 0, 0]]\<rparr> \<noteq> []"
    "args \<lparr>arg_count = 1, arg_type = [STRING_RESULT], args = [None]\<rparr> \<noteq> []"
    by simp_all
  have t: "args \<lparr>arg_count = 1, arg_type = [STRING_RESULT], args = [Some (map ch ''{6CCD780C-BABA-1026-9564-0040F4311E29}'')]\<rparr> ! 0 = Some (map ch ''{6CCD780C-BABA-1026-9564-0040F4311E29}'')
            \<and> length (map ch ''{6CCD780C-BABA-1026-9564-0040F4311E29}'') < 2 ^ 32"
    "args \<lparr>arg_count = 1, arg_type = [STRING_RESULT], args = [Some (map ch ''invalid'')]\<rparr> ! 0 = Some (map ch ''invalid'')
            \<and> length (map ch ''invalid'') < 2 ^ 32"
    "args \<lparr>arg_count = 1, arg_type = [INT_RESULT], args = [Some [123, 0, 0, 0, 0, 0, 0, 0]]\<rparr> ! 0 = Some [123, 0, 0, 0, 0, 0, 0, 0]
            \<and> length [123, 0, 0, 0, 0, 0, 0, 0 :: byte] < 2 ^ 32"
    "args \<lparr>arg_count = 1, arg_type = [STRING_RESULT], args = [None]\<rparr> ! 0 = None"
    by simp_all
  from is_uuid_spec [OF n(1)] t(1)
  have 1: "is_uuid \<lparr>arg_count = 1, arg_type = [STRING_RESULT], args = [Some (map ch ''{6CCD780C-BABA-1026-9564-0040F4311E29}'')]\<rparr> 0 =
      (if arg_type \<lparr>arg_count = 1, arg_type = [STRING_RESULT], args = [Some (map ch ''{6CCD780C-BABA-1026-9564-0040F4311E29}'')]\<rparr> ! 0 = STRING_RESULT
          \<and> valid_uuid_text (map ch ''{6CCD780C-BABA-1026-9564-0040F4311E29}'') then 1 else 0, 0)"
    by blast
  from is_uuid_spec [OF n(2)] t(2)
  have 2: "is_uuid \<lparr>arg_count = 1, arg_type = [STRING_RESULT], args = [Some (map ch ''invalid'')]\<rparr> 0 =
      (if arg_type \<lparr>arg_count = 1, arg_type = [STRING_RESULT], args = [Some (map ch ''invalid'')]\<rparr> ! 0 = STRING_RESULT
          \<and> valid_uuid_text (map ch ''invalid'') then 1 else 0, 0)"
    by blast
  from is_uuid_spec [OF n(3)] t(3)
  have 3: "is_uuid \<lparr>arg_count = 1, arg_type = [INT_RESULT], args = [Some [123, 0, 0, 0, 0, 0, 0, 0]]\<rparr> 0 =
      (if arg_type \<lparr>arg_count = 1, arg_type = [INT_RESULT], args = [Some [123, 0, 0, 0, 0, 0, 0, 0]]\<rparr> ! 0 = STRING_RESULT
          \<and> valid_uuid_text [123, 0, 0, 0, 0, 0, 0, 0] then 1 else 0, 0)"
    by blast
  from is_uuid_spec [OF n(4)] t(4)
  have 4: "is_uuid \<lparr>arg_count = 1, arg_type = [STRING_RESULT], args = [None]\<rparr> 0 = (0, 1)"
    by blast
  from 1 2 3 4 show ?thesis
    using n t by (simp del: list.map add: example_texts_valid)
qed

text \<open>
  C5.  On a 16-byte buffer \<open>swap_ts\<close> moves input bytes 6-7 (time_hi) to
  offsets 0-1, bytes 4-5 (time_mid) to offsets 2-3 and bytes 0-3 (time_low) to
  offsets 4-7, each field in its own byte order, and leaves bytes 8-15 as they
  are.
\<close>

theorem swap_ts_layout:
  assumes "length b = 16"
  shows "swap_ts b = [b ! 6, b ! 7, b ! 4, b ! 5, b ! 0, b ! 1, b ! 2, b ! 3] @ drop 8 b"
  using assms by (rule swap_both_layouts(1))

theorem swap_ts_layout_witness:
  "length [1, 2, 3, 4, 5, 6, 7, 8, 9, 10, 11, 12, 13, 14, 15, 16 :: byte] = 16 \<and>
   swap_ts [1, 2, 3, 4, 5, 6, 7, 8, 9, 10, 11, 12, 13, 14, 15, 16] = [7, 8, 5, 6, 1, 2, 3, 4, 9, 10, 11, 12, 13, 14, 15, 16]"
proof -
  have l: "length [1, 2, 3, 4, 5, 6, 7, 8, 9, 10, 11, 12, 13, 14, 15, 16 :: byte] = 16"
    by simp
  from swap_ts_layout [OF l] l show ?thesis
    by simp
qed

text \<open>
  C6.  \<open>uuid_to_bin\<close>, for a call whose swap flag can be read (one argument,
  or a second argument that is not \<open>NULL\<close>), with \<open>*is_null = 0\<close> and a
  result buffer of at least 16 bytes.  It returns null (\<open>NULL\<close> with
  \<open>*is_null\<close> set) if and only if the input is absent.  For a present input
  of fewer than \<open>2^32\<close> bytes it signals an error (\<open>NULL\<close> with
  \<open>*is_error\<close> set, the result buffer and \<open>*length\<close> untouched) if and
  only if the text is not in one of the three valid forms; for a valid text it
  returns \<open>result\<close> with \<open>*length = 16\<close> and the sixteen bytes of the text in
  field order, with \<open>swap_ts\<close> applied when the swap flag is set.
\<close>

theorem uuid_to_bin_spec:
  assumes "args a \<noteq> []" "swap_flag a = Inr s" "is_null out = 0" "16 \<le> length (result out)"
  shows "(uuid_to_bin a out = Inr (Null_ptr, out\<lparr>is_null := 1\<rparr>) \<longleftrightarrow> args a ! 0 = None) \<and>
     (\<forall>t. args a ! 0 = Some t \<and> length t < 2 ^ 32 \<longrightarrow>
        (uuid_to_bin a out = Inr (Null_ptr, out\<lparr>is_error := 1\<rparr>) \<longleftrightarrow> \<not> valid_uuid_text t) \<and>
        (valid_uuid_text t \<longrightarrow>
           uuid_to_bin a out =
             Inr (Result_ptr,
                  out\<lparr>result := (if s then swap_ts (uuid_bytes t) else uuid_bytes t) @ drop 16 (result out),
                      out_length := 16\<rparr>) \<and>
           returned (uuid_to_bin a out) = Some (if s then swap_ts (uuid_bytes t) else uuid_bytes t) \<and>
           length (uuid_bytes t) = 16))"
  using assms by (rule uuid_to_bin_contract)

theorem uuid_to_bin_spec_witness:
  "args \<lparr>arg_count = 2, arg_type = [STRING_RESULT, INT_RESULT], args = [Some (map ch ''{6CCD780C-BABA-1026-9564-0040F4311E29}''), Some [1, 0, 0, 0, 0, 0, 0, 0]]\<rparr> \<noteq> [] \<and>
   swap_flag \<lparr>arg_count = 2, arg_type = [STRING_RESULT, INT_RESULT], args = [Some (map ch ''{6CCD780C-BABA-1026-9564-0040F4311E29}''), Some [1, 0, 0, 0, 0, 0, 0, 0]]\<rparr> = Inr True \<and>
   is_null \<lparr>result = replicate 255 0, out_length = 0, is_null = 0, is_error = 0\<rparr> = 0 \<and>
   16 \<le> length (result \<lparr>result = replicate 255 0, out_length = 0, is_null = 0, is_error = 0\<rparr>) \<and>
   args \<lparr>arg_count = 2, arg_type = [STRING_RESULT, INT_RESULT], args = [Some (map ch ''{6CCD780C-BABA-1026-9564-0040F4311E29}''), Some [1, 0, 0, 0, 0, 0, 0, 0]]\<rparr> ! 0 = Some (map ch ''{6CCD780C-BABA-1026-9564-0040F4311E29}'') \<and>
   length (map ch ''{6CCD780C-BABA-1026-9564-0040F4311E29}'') < 2 ^ 32 \<and>
   valid_uuid_text (map ch ''{6CCD780C-BABA-1026-9564-0040F4311E29}'') \<and>
   returned (uuid_to_bin \<lparr>arg_count = 2, arg_type = [STRING_RESULT, INT_RESULT], args = [Some (map ch ''{6CCD780C-BABA-1026-9564-0040F4311E29}''), Some [1, 0, 0, 0, 0, 0, 0, 0]]\<rparr> \<lparr>result = replicate 255 0, out_length = 0, is_null = 0, is_error = 0\<rparr>)
     = Some [16, 38, 186, 186, 108, 205, 120, 12, 149, 100, 0, 64, 244, 49, 30, 41] \<and>
   args \<lparr>arg_count = 1, arg_type = [STRING_RESULT], args = [Some (map ch ''invalid'')]\<rparr> \<noteq> [] \<and>
   swap_flag \<lparr>arg_count = 1, arg_type = [STRING_RESULT], args = [Some (map ch ''invalid'')]\<rparr> = Inr False \<and>
   args \<lparr>arg_count = 1, arg_type = [STRING_RESULT], args = [Some (map ch ''invalid'')]\<rparr> ! 0 = Some (map ch ''invalid'') \<and>
   length (map ch ''invalid'') < 2 ^ 32 \<and>
   \<not> valid_uuid_text (map ch ''invalid'') \<and>
   uuid_to_bin \<lparr>arg_count = 1, arg_type = [STRING_RESULT], args = [Some (map ch ''invalid'')]\<rparr> \<lparr>result = replicate 255 0, out_length = 0, is_null = 0, is_error = 0\<rparr>
     = Inr (Null_ptr, \<lparr>result = replicate 255 0, out_length = 0, is_null = 0, is_error = 0\<rparr>\<lparr>is_error := 1\<rparr>)"
proof -
  have h: "args \<lparr>arg_count = 2, arg_type = [STRING_RESULT, INT_RESULT], args = [Some (map ch ''{6CCD780C-BABA-1026-9564-0040F4311E29}''), Some [1, 0, 0, 0, 0, 0, 0, 0]]\<rparr> \<noteq> []"
    "swap_flag \<lparr>arg_count = 2, arg_type = [STRING_RESULT, INT_RESULT], args = [Some (map ch ''{6CCD780C-BABA-1026-9564-0040F4311E29}''), Some [1, 0, 0, 0, 0, 0, 0, 0]]\<rparr> = Inr True"
    "is_null \<lparr>result = replicate 255 0, out_length = 0, is_null = 0, is_error = 0\<rparr> = 0"
    "16 \<le> length (result \<lparr>result = replicate 255 0, out_length = 0, is_null = 0, is_error = 0\<rparr>)"
    by (simp_all add: example_flags)
  have t: "args \<lparr>arg_count = 2, arg_type = [STRING_RESULT, INT_RESULT], args = [Some (map ch ''{6CCD780C-BABA-1026-9564-0040F4311E29}''), Some [1, 0, 0, 0, 0, 0, 0, 0]]\<rparr> ! 0 = Some (map ch ''{6CCD780C-BABA-1026-9564-0040F4311E29}'') \<and> length (map ch ''{6CCD780C-BABA-1026-9564-0040F4311E29}'') < 2 ^ 32"
    by simp
  have v: "valid_uuid_text (map ch ''{6CCD780C-BABA-1026-9564-0040F4311E29}'')"
    by (rule example_texts_valid)
  from uuid_to_bin_spec [OF h] t v
  have 1: "returned (uuid_to_bin \<lparr>arg_count = 2, arg_type = [STRING_RESULT, INT_RESULT], args = [Some (map ch ''{6CCD780C-BABA-1026-9564-0040F4311E29}''), Some [1, 0, 0, 0, 0, 0, 0, 0]]\<rparr> \<lparr>result = replicate 255 0, out_length = 0, is_null = 0, is_error = 0\<rparr>)
      = Some (if True then swap_ts (uuid_bytes (map ch ''{6CCD780C-BABA-1026-9564-0040F4311E29}'')) else uuid_bytes (map ch ''{6CCD780C-BABA-1026-9564-0040F4311E29}''))"
    by blast
  have h': "args \<lparr>arg_count = 1, arg_type = [STRING_RESULT], args = [Some (map ch ''invalid'')]\<rparr> \<noteq> []"
    "swap_flag \<lparr>arg_count = 1, arg_type = [STRING_RESULT], args = [Some (map ch ''invalid'')]\<rparr> = Inr False"
    "is_null \<lparr>result = replicate 255 0, out_length = 0, is_null = 0, is_error = 0\<rparr> = 0"
    "16 \<le> length (result \<lparr>result = replicate 255 0, out_length = 0, is_null = 0, is_error = 0\<rparr>)"
    by (simp_all add: swap_flag_def)
  have t': "args \<lparr>arg_count = 1, arg_type = [STRING_RESULT], args = [Some (map ch ''invalid'')]\<rparr> ! 0 = Some (map ch ''invalid'') \<and> length (map ch ''invalid'') < 2 ^ 32"
    by simp
  have v': "\<not> valid_uuid_text (map ch ''invalid'')"
    by (rule example_texts_valid)
  from uuid_to_bin_spec [OF h'] t' v'
  have 2: "uuid_to_bin \<lparr>arg_count = 1, arg_type = [STRING_RESULT], args = [Some (map ch ''invalid'')]\<rparr> \<lparr>result = replicate 255 0, out_length = 0, is_null = 0, is_error = 0\<rparr>
     = Inr (Null_ptr, \<lparr>result = replicate 255 0, out_length = 0, is_null = 0, is_error = 0\<rparr>\<lparr>is_error := 1\<rparr>)"
    by blast
  from 1 have 3: "returned (uuid_to_bin \<lparr>arg_count = 2, arg_type = [STRING_RESULT, INT_RESULT], args = [Some (map ch ''{6CCD780C-BABA-1026-9564-0040F4311E29}''), Some [1, 0, 0, 0, 0, 0, 0, 0]]\<rparr> \<lparr>result = replicate 255 0, out_length = 0, is_null = 0, is_error = 0\<rparr>)
     = Some [16, 38, 186, 186, 108, 205, 120, 12, 149, 100, 0, 64, 244, 49, 30, 41]"
    by (simp del: list.map add: example_bytes swap_ts_explicit)
  from h t v h'(1,2) t' v' 2 3 show ?thesis
    by blast
qed

text \<open>
  C7.  \<open>bin_to_uuid\<close>, for a call whose swap flag can be read, with
  \<open>*is_null = 0\<close> and a result buffer of at least 36 bytes.  It returns null
  if and only if the input is absent.  For a present input it signals an error
  (\<open>NULL\<close> with \<open>*is_error\<close> set, the result buffer and \<open>*length\<close>
  untouched) if and only if the input is not exactly 16 bytes long.  On success
  it returns \<open>result\<close> with \<open>*length = 36\<close>: the 36 characters of the
  lowercase dashed form of the bytes, after \<open>unswap_ts\<close> when the swap flag is
  set.
\<close>

theorem bin_to_uuid_spec:
  assumes "args a \<noteq> []" "swap_flag a = Inr s" "is_null out = 0" "36 \<le> length (result out)"
  shows "(bin_to_uuid a out = Inr (Null_ptr, out\<lparr>is_null := 1\<rparr>) \<longleftrightarrow> args a ! 0 = None) \<and>
     (\<forall>b. args a ! 0 = Some b \<longrightarrow>
        (bin_to_uuid a out = Inr (Null_ptr, out\<lparr>is_error := 1\<rparr>) \<longleftrightarrow> length b \<noteq> 16) \<and>
        (length b = 16 \<longrightarrow>
           bin_to_uuid a out =
             Inr (Result_ptr,
                  out\<lparr>result := uuid_text (if s then unswap_ts b else b) @ drop 36 (result out),
                      out_length := 36\<rparr>) \<and>
           returned (bin_to_uuid a out) = Some (uuid_text (if s then unswap_ts b else b)) \<and>
           length (uuid_text (if s then unswap_ts b else b)) = 36 \<and>
           uuid_form_dashed (uuid_text (if s then unswap_ts b else b)) \<and>
           list_all (\<lambda>c. to_lower c = c) (uuid_text (if s then unswap_ts b else b))))"
  using assms by (rule bin_to_uuid_contract)

theorem bin_to_uuid_spec_witness:
  "args \<lparr>arg_count = 2, arg_type = [STRING_RESULT, INT_RESULT], args = [Some [16, 38, 186, 186, 108, 205, 120, 12, 149, 100, 0, 64, 244, 49, 30, 41], Some [1, 0, 0, 0, 0, 0, 0, 0]]\<rparr> \<noteq> [] \<and>
   swap_flag \<lparr>arg_count = 2, arg_type = [STRING_RESULT, INT_RESULT], args = [Some [16, 38, 186, 186, 108, 205, 120, 12, 149, 100, 0, 64, 244, 49, 30, 41], Some [1, 0, 0, 0, 0, 0, 0, 0]]\<rparr> = Inr True \<and>
   is_null \<lparr>result = replicate 255 0, out_length = 0, is_null = 0, is_error = 0\<rparr> = 0 \<and>
   36 \<le> length (result \<lparr>result = replicate 255 0, out_length = 0, is_null = 0, is_error = 0\<rparr>) \<and>
   args \<lparr>arg_count = 2, arg_type = [STRING_RESULT, INT_RESULT], args = [Some [16, 38, 186, 186, 108, 205, 120, 12, 149, 100, 0, 64, 244, 49, 30, 41], Some [1, 0, 0, 0, 0, 0, 0, 0]]\<rparr> ! 0 = Some [16, 38, 186, 186, 108, 205, 120, 12, 149, 100, 0, 64, 244, 49, 30, 41] \<and>
   length [16, 38, 186, 186, 108, 205, 120, 12, 149, 100, 0, 64, 244, 49, 30, 41 :: byte] = 16 \<and>
   returned (bin_to_uuid \<lparr>arg_count = 2, arg_type = [STRING_RESULT, INT_RESULT], args = [Some [16, 38, 186, 186, 108, 205, 120, 12, 149, 100, 0, 64, 244, 49, 30, 41], Some [1, 0, 0, 0, 0, 0, 0, 0]]\<rparr> \<lparr>result = replicate 255 0, out_length = 0, is_null = 0, is_error = 0\<rparr>)
     = Some (map ch ''6ccd780c-baba-1026-9564-0040f4311e29'') \<and>
   args \<lparr>arg_count = 1, arg_type = [STRING_RESULT], args = [Some [1, 2, 3, 4, 5, 6, 7, 8, 9, 10, 11, 12, 13, 14, 15]]\<rparr> \<noteq> [] \<and>
   swap_flag \<lparr>arg_count = 1, arg_type = [STRING_RESULT], args = [Some [1, 2, 3, 4, 5, 6, 7, 8, 9, 10, 11, 12, 13, 14, 15]]\<rparr> = Inr False \<and>
   args \<lparr>arg_count = 1, arg_type = [STRING_RESULT], args = [Some [1, 2, 3, 4, 5, 6, 7, 8, 9, 10, 11, 12, 13, 14, 15]]\<rparr> ! 0 = Some [1, 2, 3, 4, 5, 6, 7, 8, 9, 10, 11, 12, 13, 14, 15] \<and>
   length [1, 2, 3, 4, 5, 6, 7, 8, 9, 10, 11, 12, 13, 14, 15 :: byte] \<noteq> 16 \<and>
   bin_to_uuid \<lparr>arg_count = 1, arg_type = [STRING_RESULT], args = [Some [1, 2, 3, 4, 5, 6, 7, 8, 9, 10, 11, 12, 13, 14, 15]]\<rparr> \<lparr>result = replicate 255 0, out_length = 0, is_null = 0, is_error = 0\<rparr>
     = Inr (Null_ptr, \<lparr>result = replicate 255 0, out_length = 0, is_null = 0, is_error = 0\<rparr>\<lparr>is_error := 1\<rparr>)"
proof -
  have h: "args \<lparr>arg_count = 2, arg_type = [STRING_RESULT, INT_RESULT], args = [Some [16, 38, 186, 186, 108, 205, 120, 12, 149, 100, 0, 64, 244, 49, 30, 41], Some [1, 0, 0, 0, 0, 0, 0, 0]]\<rparr> \<noteq> []"
    "swap_flag \<lparr>arg_count = 2, arg_type = [STRING_RESULT, INT_RESULT], args = [Some [16, 38, 186, 186, 108, 205, 120, 12, 149, 100, 0, 64, 244, 49, 30, 41], Some [1, 0, 0, 0, 0, 0, 0, 0]]\<rparr> = Inr True"
    "is_null \<lparr>result = replicate 255 0, out_length = 0, is_null = 0, is_error = 0\<rparr> = 0"
    "36 \<le> length (result \<lparr>result = replicate 255 0, out_length = 0, is_null = 0, is_error = 0\<rparr>)"
    by (simp_all add: example_flags)
  have t: "args \<lparr>arg_count = 2, arg_type = [STRING_RESULT, INT_RESULT], args = [Some [16, 38, 186, 186, 108, 205, 120, 12, 149, 100, 0, 64, 244, 49, 30, 41], Some [1, 0, 0, 0, 0, 0, 0, 0]]\<rparr> ! 0 = Some [16, 38, 186, 186, 108, 205, 120, 12, 149, 100, 0, 64, 244, 49, 30, 41]"
    by simp
  have l: "length [16, 38, 186, 186, 108, 205, 120, 12, 149, 100, 0, 64, 244, 49, 30, 41 :: byte] = 16"
    by simp
  from bin_to_uuid_spec [OF h] t l
  have 1: "returned (bin_to_uuid \<lparr>arg_count = 2, arg_type = [STRING_RESULT, INT_RESULT], args = [Some [16, 38, 186, 186, 108, 205, 120, 12, 149, 100, 0, 64, 244, 49, 30, 41], Some [1, 0, 0, 0, 0, 0, 0, 0]]\<rparr> \<lparr>result = replicate 255 0, out_length = 0, is_null = 0, is_error = 0\<rparr>)
      = Some (uuid_text (if True then unswap_ts [16, 38, 186, 186, 108, 205, 120, 12, 149, 100, 0, 64, 244, 49, 30, 41] else [16, 38, 186, 186, 108, 205, 120, 12, 149, 100, 0, 64, 244, 49, 30, 41]))"
    by blast
  have h': "args \<lparr>arg_count = 1, arg_type = [STRING_RESULT], args = [Some [1, 2, 3, 4, 5, 6, 7, 8, 9, 10, 11, 12, 13, 14, 15]]\<rparr> \<noteq> []"
    "swap_flag \<lparr>arg_count = 1, arg_type = [STRING_RESULT], args = [Some [1, 2, 3, 4, 5, 6, 7, 8, 9, 10, 11, 12, 13, 14, 15]]\<rparr> = Inr False"
    "is_null \<lparr>result = replicate 255 0, out_length = 0, is_null = 0, is_error = 0\<rparr> = 0"
    "36 \<le> length (result \<lparr>result = replicate 255 0, out_length = 0, is_null = 0, is_error = 0\<rparr>)"
    by (simp_all add: swap_flag_def)
  have t': "args \<lparr>arg_count = 1, arg_type = [STRING_RESULT], args = [Some [1, 2, 3, 4, 5, 6, 7, 8, 9, 10, 11, 12, 13, 14, 15]]\<rparr> ! 0 = Some [1, 2, 3, 4, 5, 6, 7, 8, 9, 10, 11, 12, 13, 14, 15]"
    by simp
  have l': "length [1, 2, 3, 4, 5, 6, 7, 8, 9, 10, 11, 12, 13, 14, 15 :: byte] \<noteq> 16"
    by simp
  from bin_to_uuid_spec [OF h'] t' l'
  have 2: "bin_to_uuid \<lparr>arg_count = 1, arg_type = [STRING_RESULT], args = [Some [1, 2, 3, 4, 5, 6, 7, 8, 9, 10, 11, 12, 13, 14, 15]]\<rparr> \<lparr>result = replicate 255 0, out_length = 0, is_null = 0, is_error = 0\<rparr>
     = Inr (Null_ptr, \<lparr>result = replicate 255 0, out_length = 0, is_null = 0, is_error = 0\<rparr>\<lparr>is_error := 1\<rparr>)"
    by blast
  from 1 have 3: "returned (bin_to_uuid \<lparr>arg_count = 2, arg_type = [STRING_RESULT, INT_RESULT], args = [Some [16, 38, 186, 186, 108, 205, 120, 12, 149, 100, 0, 64, 244, 49, 30, 41], Some [1, 0, 0, 0, 0, 0, 0, 0]]\<rparr> \<lparr>result = replicate 255 0, out_length = 0, is_null = 0, is_error = 0\<rparr>)
     = Some (map ch ''6ccd780c-baba-1026-9564-0040f4311e29'')"
    by (simp del: list.map add: unswap_ts_explicit example_text)
  from h t l h'(1,2) t' l' 2 3 show ?thesis
    by blast
qed

text \<open>
  C8.  A call of \<open>uuid_to_bin\<close> with one or two arguments whose first argument
  is not text-typed is rejected when the call is set up: \<open>uuid_to_bin_init\<close>
  returns 1 with the message \<open>UUID_TO_BIN requires first argument as string\<close>
  and leaves \<open>*initid\<close> as it was.  \<open>uuid_to_bin_init\<close> returns 0 only for
  a text-typed first argument, so the per-call function is reached with
  text-typed input only.
\<close>

theorem uuid_to_bin_init_non_text:
  "(1 \<le> arg_count a \<and> arg_count a \<le> 2 \<and> arg_type a ! 0 \<noteq> STRING_RESULT \<longrightarrow>
      uuid_to_bin_init initid a message =
        (1, initid, ''UUID_TO_BIN requires first argument as string'')) \<and>
   (fst (uuid_to_bin_init initid a message) = 0 \<longrightarrow> arg_type a ! 0 = STRING_RESULT)"
  using uuid_to_bin_init_rejects [of a initid message] uuid_to_bin_init_accepts [of initid a message]
  by blast

theorem uuid_to_bin_init_non_text_witness:
  "1 \<le> arg_count \<lparr>arg_count = 1, arg_type = [INT_RESULT], args = [Some [123, 0, 0, 0, 0, 0, 0, 0]]\<rparr> \<and>
   arg_count \<lparr>arg_count = 1, arg_type = [INT_RESULT], args = [Some [123, 0, 0, 0, 0, 0, 0, 0]]\<rparr> \<le> 2 \<and>
   arg_type \<lparr>arg_count = 1, arg_type = [INT_RESULT], args = [Some [123, 0, 0, 0, 0, 0, 0, 0]]\<rparr> ! 0 \<noteq> STRING_RESULT \<and>
   uuid_to_bin_init \<lparr>maybe_null = False, max_length = 0, const_item = False\<rparr> \<lparr>arg_count = 1, arg_type = [INT_RESULT], args = [Some [123, 0, 0, 0, 0, 0, 0, 0]]\<rparr> []
     = (1, \<lparr>maybe_null = False, max_length = 0, const_item = False\<rparr>, ''UUID_TO_BIN requires first argument as string'') \<and>
   fst (uuid_to_bin_init \<lparr>maybe_null = False, max_length = 0, const_item = False\<rparr> \<lparr>arg_count = 1, arg_type = [STRING_RESULT], args = [Some (map ch ''6ccd780c-baba-1026-9564-0040f4311e29'')]\<rparr> []) = 0 \<and>
   arg_type \<lparr>arg_count = 1, arg_type = [STRING_RESULT], args = [Some (map ch ''6ccd780c-baba-1026-9564-0040f4311e29'')]\<rparr> ! 0 = STRING_RESULT"
proof -
  have h: "1 \<le> arg_count \<lparr>arg_count = 1, arg_type = [INT_RESULT], args = [Some [123, 0, 0, 0, 0, 0, 0, 0]]\<rparr> \<and>
      arg_count \<lparr>arg_count = 1, arg_type = [INT_RESULT], args = [Some [123, 0, 0, 0, 0, 0, 0, 0]]\<rparr> \<le> 2 \<and>
      arg_type \<lparr>arg_count = 1, arg_type = [INT_RESULT], args = [Some [123, 0, 0, 0, 0, 0, 0, 0]]\<rparr> ! 0 \<noteq> STRING_RESULT"
    by simp
  have k: "fst (uuid_to_bin_init \<lparr>maybe_null = False, max_length = 0, const_item = False\<rparr> \<lparr>arg_count = 1, arg_type = [STRING_RESULT], args = [Some (map ch ''6ccd780c-baba-1026-9564-0040f4311e29'')]\<rparr> []) = 0"
    by (simp add: uuid_to_bin_init_def)
  from uuid_to_bin_init_non_text [of "\<lparr>arg_count = 1, arg_type = [INT_RESULT], args = [Some [123, 0, 0, 0, 0, 0, 0, 0]]\<rparr>" "\<lparr>maybe_null = False, max_length = 0, const_item = False\<rparr>" "[]"] h
  have 1: "uuid_to_bin_init \<lparr>maybe_null = False, max_length = 0, const_item = False\<rparr> \<lparr>arg_count = 1, arg_type = [INT_RESULT], args = [Some [123, 0, 0, 0, 0, 0, 0, 0]]\<rparr> []
     = (1, \<lparr>maybe_null = False, max_length = 0, const_item = False\<rparr>, ''UUID_TO_BIN requires first argument as string'')"
    by blast
  from uuid_to_bin_init_non_text [of "\<lparr>arg_count = 1, arg_type = [STRING_RESULT], args = [Some (map ch ''6ccd780c-baba-1026-9564-0040f4311e29'')]\<rparr>" "\<lparr>maybe_null = False, max_length = 0, const_item = False\<rparr>" "[]"] k
  have 2: "arg_type \<lparr>arg_count = 1, arg_type = [STRING_RESULT], args = [Some (map ch ''6ccd780c-baba-1026-9564-0040f4311e29'')]\<rparr> ! 0 = STRING_RESULT"
    by blast
  from h k 1 2 show ?thesis
    by blast
qed

theorem uuid_to_bin_init_counterexample:
  "arg_type \<lparr>arg_count = 1, arg_type = [INT_RESULT], args = [Some [123, 0, 0, 0, 0, 0, 0, 0]]\<rparr> ! 0 \<noteq> STRING_RESULT \<and>
   uuid_to_bin_init \<lparr>maybe_null = False, max_length = 0, const_item = False\<rparr> \<lparr>arg_count = 1, arg_type = [INT_RESULT], args = [Some [123, 0, 0, 0, 0, 0, 0, 0]]\<rparr> []
     = (1, \<lparr>maybe_null = False, max_length = 0, const_item = False\<rparr>, ''UUID_TO_BIN requires first argument as string'')"
  by (simp add: uuid_to_bin_init_def)

text \<open>
  C9.  \<open>hexchar_to_int\<close> maps \<open>'0'..'9'\<close> to 0-9 and \<open>'a'..'f'\<close> and
  \<open>'A'..'F'\<close> to 10-15, returns the sentinel \<open>-1\<close> for every other
  character, and gives a letter and its lowercase the same value.
\<close>

theorem hexchar_to_int_spec:
  "hexchar_to_int c =
     (if ch CHR ''0'' \<le> c \<and> c \<le> ch CHR ''9'' then uint c - uint (ch CHR ''0'')
      else if ch CHR ''a'' \<le> c \<and> c \<le> ch CHR ''f'' then uint c - uint (ch CHR ''a'') + 10
      else if ch CHR ''A'' \<le> c \<and> c \<le> ch CHR ''F'' then uint c - uint (ch CHR ''A'') + 10
      else - 1) \<and>
   (is_hex_digit c \<longrightarrow> hexchar_to_int (to_lower c) = hexchar_to_int c)"
  using hexchar_to_int_chars [of c] hexchar_to_lower [of c] by blast

theorem hexchar_to_int_spec_witness:
  "is_hex_digit (ch CHR ''B'') \<and> to_lower (ch CHR ''B'') = ch CHR ''b'' \<and>
   hexchar_to_int (ch CHR ''B'') = 11 \<and> hexchar_to_int (ch CHR ''b'') = 11 \<and>
   hexchar_to_int (ch CHR ''7'') = 7 \<and> hexchar_to_int (ch CHR ''g'') = - 1"
  using hexchar_to_int_spec [of "ch CHR ''B''"] hexchar_to_int_spec [of "ch CHR ''7''"]
    hexchar_to_int_spec [of "ch CHR ''g''"]
  by (simp add: is_hex_digit_def to_lower_def ch_def)

text \<open>
  C10.  Let \<open>b\<close> be any 16 bytes and let a call of \<open>bin_to_uuid\<close> on \<open>b\<close>
  read the swap flag \<open>s\<close>.  Then \<open>uuid_to_bin\<close>, called on the text that call
  returned and reading the same flag \<open>s\<close>, returns exactly \<open>b\<close>.  (The
  result buffers hold at least 36 and 16 bytes.)
\<close>

theorem binary_roundtrip:
  assumes "args a \<noteq> []" "args a ! 0 = Some b" "length b = 16" "swap_flag a = Inr s"
    "36 \<le> length (result out)"
    "args a' \<noteq> []" "args a' ! 0 = returned (bin_to_uuid a out)" "swap_flag a' = Inr s"
    "16 \<le> length (result out')"
  shows "returned (uuid_to_bin a' out') = Some b"
  using assms by (rule encode_then_decode)

theorem binary_roundtrip_witness:
  "args \<lparr>arg_count = 1, arg_type = [STRING_RESULT], args = [Some [108, 205, 120, 12, 186, 186, 16, 38, 149, 100, 0, 64, 244, 49, 30, 41]]\<rparr> \<noteq> [] \<and>
   args \<lparr>arg_count = 1, arg_type = [STRING_RESULT], args = [Some [108, 205, 120, 12, 186, 186, 16, 38, 149, 100, 0, 64, 244, 49, 30, 41]]\<rparr> ! 0 = Some [108, 205, 120, 12, 186, 186, 16, 38, 149, 100, 0, 64, 244, 49, 30, 41] \<and>
   length [108, 205, 120, 12, 186, 186, 16, 38, 149, 100, 0, 64, 244, 49, 30, 41 :: byte] = 16 \<and>
   swap_flag \<lparr>arg_count = 1, arg_type = [STRING_RESULT], args = [Some [108, 205, 120, 12, 186, 186, 16, 38, 149, 100, 0, 64, 244, 49, 30, 41]]\<rparr> = Inr False \<and>
   36 \<le> length (result \<lparr>result = replicate 255 0, out_length = 0, is_null = 0, is_error = 0\<rparr>) \<and>
   args \<lparr>arg_count = 1, arg_type = [STRING_RESULT], args = [returned (bin_to_uuid \<lparr>arg_count = 1, arg_type = [STRING_RESULT], args = [Some [108, 205, 120, 12, 186, 186, 16, 38, 149, 100, 0, 64, 244, 49, 30, 41]]\<rparr> \<lparr>result = replicate 255 0, out_length = 0, is_null = 0, is_error = 0\<rparr>)]\<rparr> \<noteq> [] \<and>
   args \<lparr>arg_count = 1, arg_type = [STRING_RESULT], args = [returned (bin_to_uuid \<lparr>arg_count = 1, arg_type = [STRING_RESULT], args = [Some [108, 205, 120, 12, 186, 186, 16, 38, 149, 100, 0, 64, 244, 49, 30, 41]]\<rparr> \<lparr>result = replicate 255 0, out_length = 0, is_null = 0, is_error = 0\<rparr>)]\<rparr> ! 0
     = returned (bin_to_uuid \<lparr>arg_count = 1, arg_type = [STRING_RESULT], args = [Some [108, 205, 120, 12, 186, 186, 16, 38, 149, 100, 0, 64, 244, 49, 30, 41]]\<rparr> \<lparr>result = replicate 255 0, out_length = 0, is_null = 0, is_error = 0\<rparr>) \<and>
   swap_flag \<lparr>arg_count = 1, arg_type = [STRING_RESULT], args = [returned (bin_to_uuid \<lparr>arg_count = 1, arg_type = [STRING_RESULT], args = [Some [108, 205, 120, 12, 186, 186, 16, 38, 149, 100, 0, 64, 244, 49, 30, 41]]\<rparr> \<lparr>result = replicate 255 0, out_length = 0, is_null = 0, is_error = 0\<rparr>)]\<rparr> = Inr False \<and>
   16 \<le> length (result \<lparr>result = replicate 255 0, out_length = 0, is_null = 0, is_error = 0\<rparr>) \<and>
   returned (uuid_to_bin \<lparr>arg_count = 1, arg_type = [STRING_RESULT], args = [returned (bin_to_uuid \<lparr>arg_count = 1, arg_type = [STRING_RESULT], args = [Some [108, 205, 120, 12, 186, 186, 16, 38, 149, 100, 0, 64, 244, 49, 30, 41]]\<rparr> \<lparr>result = replicate 255 0, out_length = 0, is_null = 0, is_error = 0\<rparr>)]\<rparr> \<lparr>result = replicate 255 0, out_length = 0, is_null = 0, is_error = 0\<rparr>)
     = Some [108, 205, 120, 12, 186, 186, 16, 38, 149, 100, 0, 64, 244, 49, 30, 41]"
proof -
  have h: "args \<lparr>arg_count = 1, arg_type = [STRING_RESULT], args = [Some [108, 205, 120, 12, 186, 186, 16, 38, 149, 100, 0, 64, 244, 49, 30, 41]]\<rparr> \<noteq> []"
    "args \<lparr>arg_count = 1, arg_type = [STRING_RESULT], args = [Some [108, 205, 120, 12, 186, 186, 16, 38, 149, 100, 0, 64, 244, 49, 30, 41]]\<rparr> ! 0 = Some [108, 205, 120, 12, 186, 186, 16, 38, 149, 100, 0, 64, 244, 49, 30, 41]"
    "length [108, 205, 120, 12, 186, 186, 16, 38, 149, 100, 0, 64, 244, 49, 30, 41 :: byte] = 16"
    "swap_flag \<lparr>arg_count = 1, arg_type = [STRING_RESULT], args = [Some [108, 205, 120, 12, 186, 186, 16, 38, 149, 100, 0, 64, 244, 49, 30, 41]]\<rparr> = Inr False"
    "36 \<le> length (result \<lparr>result = replicate 255 0, out_length = 0, is_null = 0, is_error = 0\<rparr>)"
    "args \<lparr>arg_count = 1, arg_type = [STRING_RESULT], args = [returned (bin_to_uuid \<lparr>arg_count = 1, arg_type = [STRING_RESULT], args = [Some [108, 205, 120, 12, 186, 186, 16, 38, 149, 100, 0, 64, 244, 49, 30, 41]]\<rparr> \<lparr>result = replicate 255 0, out_length = 0, is_null = 0, is_error = 0\<rparr>)]\<rparr> \<noteq> []"
    "args \<lparr>arg_count = 1, arg_type = [STRING_RESULT], args = [returned (bin_to_uuid \<lparr>arg_count = 1, arg_type = [STRING_RESULT], args = [Some [108, 205, 120, 12, 186, 186, 16, 38, 149, 100, 0, 64, 244, 49, 30, 41]]\<rparr> \<lparr>result = replicate 255 0, out_length = 0, is_null = 0, is_error = 0\<rparr>)]\<rparr> ! 0
       = returned (bin_to_uuid \<lparr>arg_count = 1, arg_type = [STRING_RESULT], args = [Some [108, 205, 120, 12, 186, 186, 16, 38, 149, 100, 0, 64, 244, 49, 30, 41]]\<rparr> \<lparr>result = replicate 255 0, out_length = 0, is_null = 0, is_error = 0\<rparr>)"
    "swap_flag \<lparr>arg_count = 1, arg_type = [STRING_RESULT], args = [returned (bin_to_uuid \<lparr>arg_count = 1, arg_type = [STRING_RESULT], args = [Some [108, 205, 120, 12, 186, 186, 16, 38, 149, 100, 0, 64, 244, 49, 30, 41]]\<rparr> \<lparr>result = replicate 255 0, out_length = 0, is_null = 0, is_error = 0\<rparr>)]\<rparr> = Inr False"
    "16 \<le> length (result \<lparr>result = replicate 255 0, out_length = 0, is_null = 0, is_error = 0\<rparr>)"
    by (simp_all add: swap_flag_def)
  from binary_roundtrip [OF h] h show ?thesis
    by blast
qed

end
